theory Spec2Isabelle
  imports Main
begin

section \<open>The relational data model\<close>

text \<open>
  The serializers and view-sets of \<^verbatim>\<open>api/serializers.py\<close> and \<^verbatim>\<open>api/views.py\<close> work on
  the tables of \<^verbatim>\<open>recipes.models\<close> and \<^verbatim>\<open>users.models\<close>. A table is the list of its rows; a
  primary key is an \<open>int\<close>, a foreign key is the primary key of the row it points to.
  Primary keys are unique, so a lookup by primary key takes the first row that has it.
  The order of a table's list is the order in which an unordered query returns the rows.
\<close>

record user =
  user_id :: int
  email :: string
  username :: string
  first_name :: string
  last_name :: string

record ingredient =
  ingredient_id :: int
  ingredient_name :: string
  ingredient_measurement_unit :: string

record recipe =
  recipe_id :: int
  recipe_author :: int
  recipe_name :: string
  recipe_image :: string
  recipe_text :: string
  recipe_cooking_time :: int

record recipe_ingredient =
  ri_recipe :: int
  ri_ingredient :: int
  ri_amount :: int

text \<open>
  A \<^verbatim>\<open>Subscription\<close> row is the pair (user, author); a \<^verbatim>\<open>Favorite\<close> row and a
  \<^verbatim>\<open>ShoppingCart\<close> row are pairs (user, recipe); a row of the many-to-many table behind
  \<^verbatim>\<open>Recipe.tags\<close> is a pair (recipe, tag). The lists may hold a pair more than once, so
  that "at most one row per pair" is a property and not a consequence of the type.
\<close>

record database =
  users :: "user list"
  subscriptions :: "(int \<times> int) list"
  tag_ids :: "int list"
  ingredients :: "ingredient list"
  recipes :: "recipe list"
  recipe_tags :: "(int \<times> int) list"
  recipe_ingredients :: "recipe_ingredient list"
  favorites :: "(int \<times> int) list"
  carts :: "(int \<times> int) list"

text \<open>
  A validation error carries its message; the messages of the source are Russian
  sentences, each named here by a constructor.
  \<^item> \<open>Field_required f\<close>: \<^verbatim>\<open>f'{field} - ...'\<close> of \<^verbatim>\<open>RecipeCreateSerializer.validate\<close>;
  \<^item> \<open>Min_one_tag\<close>, \<open>Min_one_ingredient\<close>, \<open>Ingredients_not_unique\<close>: the other three
    messages of that method;
  \<^item> \<open>Already_subscribed\<close>, \<open>Already_favorited\<close>, \<open>Already_in_cart\<close>: the messages of the
    three \<^verbatim>\<open>UniqueTogetherValidator\<close>s;
  \<^item> \<open>Self_subscribe\<close>: the message of \<^verbatim>\<open>UserSubscribeSerializer.validate\<close>;
  \<^item> \<open>Invalid_pk\<close>, \<open>Null_not_allowed\<close>: the framework's messages for a related field whose
    row does not exist, and for one that is given as \<^verbatim>\<open>None\<close>;
  \<^item> \<open>Not_subscribed\<close>, \<open>Not_favorited\<close>, \<open>Not_in_cart\<close>: the \<^verbatim>\<open>errors\<close> texts of the 400
    responses of the three \<^verbatim>\<open>DELETE\<close> actions.
\<close>

datatype message =
    Field_required string
  | Min_one_tag
  | Min_one_ingredient
  | Ingredients_not_unique
  | Already_subscribed
  | Already_favorited
  | Already_in_cart
  | Self_subscribe
  | Invalid_pk
  | Null_not_allowed
  | Not_subscribed
  | Not_favorited
  | Not_in_cart

text \<open>
  The exceptions that leave a serializer method or a view. \<open>Http404\<close> is raised by
  \<^verbatim>\<open>get_object_or_404\<close> and by the paginator for a page that does not exist,
  \<open>NotAuthenticated\<close> by the permission \<^verbatim>\<open>IsAuthenticated\<close>; \<open>Negative_indexing\<close> is the
  exception of a query set sliced with a negative bound, \<open>Database_error\<close> the one of a
  query whose \<^verbatim>\<open>LIMIT\<close> the database refuses.
\<close>

datatype error =
    ValidationError message
  | Http404
  | NotAuthenticated
  | DoesNotExist
  | MultipleObjectsReturned
  | IntegrityError
  | KeyError
  | ValueError
  | TypeError
  | AttributeError
  | Negative_indexing
  | Database_error

section \<open>Requests\<close>

text \<open>
  The value of a query parameter is a string of the interpreter. Of it the code looks at
  its text (whether it is empty, whether it is a given word) and at what the built-in
  \<^verbatim>\<open>int\<close> makes of it: \<open>query_int\<close> is \<open>Some n\<close> when \<^verbatim>\<open>int\<close> returns \<open>n\<close> and \<open>None\<close> when
  it raises \<^verbatim>\<open>ValueError\<close>. The conversion is the interpreter's and is given with the
  value, for every text that the interpreter accepts.
\<close>

record query_value =
  query_text :: string
  query_int :: "int option"

text \<open>
  \<^verbatim>\<open>request.user\<close> is \<open>Some u\<close> for an authenticated user with primary key \<open>u\<close> and
  \<open>None\<close> for the anonymous user; \<^verbatim>\<open>request.query_params.get('recipes_limit')\<close> and
  \<^verbatim>\<open>request.query_params.get('page')\<close> are \<open>None\<close> when the parameter is absent.
\<close>

record request =
  request_user :: "int option"
  recipes_limit_param :: "query_value option"
  page_param :: "query_value option"

section \<open>Computed fields of the read serializers\<close>

text \<open>
  \<^verbatim>\<open>self.context.get('request')\<close> is \<open>None\<close> when the serializer was built without a
  request; reading \<^verbatim>\<open>.user\<close> of it then raises \<^verbatim>\<open>AttributeError\<close>.
\<close>

definition is_authenticated :: "request \<Rightarrow> bool" where
  "is_authenticated request = (request_user request \<noteq> None)"

text \<open>\<^verbatim>\<open>queryset.exists()\<close>: the query has at least one row.\<close>

definition exists :: "'a list \<Rightarrow> bool" where
  "exists queryset = (queryset \<noteq> [])"

definition get_is_subscribed :: "database \<Rightarrow> request option \<Rightarrow> user \<Rightarrow> error + bool" where
  "get_is_subscribed db context obj =
     (case context of
        None \<Rightarrow> Inl AttributeError
      | Some request \<Rightarrow>
          Inr (is_authenticated request
               \<and> exists (filter (\<lambda>row. Some (fst row) = request_user request
                                       \<and> snd row = user_id obj)
                                (subscriptions db))))"

definition get_is_favorited :: "database \<Rightarrow> request option \<Rightarrow> recipe \<Rightarrow> error + bool" where
  "get_is_favorited db context obj =
     (case context of
        None \<Rightarrow> Inl AttributeError
      | Some request \<Rightarrow>
          Inr (is_authenticated request
               \<and> exists (filter (\<lambda>row. Some (fst row) = request_user request
                                       \<and> snd row = recipe_id obj)
                                (favorites db))))"

definition get_is_in_shopping_cart :: "database \<Rightarrow> request option \<Rightarrow> recipe \<Rightarrow> error + bool" where
  "get_is_in_shopping_cart db context obj =
     (case context of
        None \<Rightarrow> Inl AttributeError
      | Some request \<Rightarrow>
          Inr (is_authenticated request
               \<and> exists (filter (\<lambda>row. Some (fst row) = request_user request
                                       \<and> snd row = recipe_id obj)
                                (carts db))))"

section \<open>Validation of a recipe\<close>

text \<open>
  The dictionary that \<^verbatim>\<open>RecipeCreateSerializer.validate\<close> receives has passed the field
  validation: each key is absent (\<open>None\<close>) or holds a value of its field's type. An entry of
  \<^verbatim>\<open>ingredients\<close> is a dictionary with the keys \<^verbatim>\<open>id\<close> and \<^verbatim>\<open>amount\<close>, here the pair of the
  two values. A create request (\<^verbatim>\<open>POST\<close>) has both keys in every entry. An update request
  is a partial one (\<^verbatim>\<open>PATCH\<close>, the view set allows no \<^verbatim>\<open>PUT\<close>), for which the field
  validation skips a key that the entry does not have: the value is then \<open>None\<close>.
\<close>

record recipe_data =
  data_ingredients :: "(int option \<times> int option) list option"
  data_tags :: "int list option"
  data_image :: "string option"
  data_name :: "string option"
  data_text :: "string option"
  data_cooking_time :: "int option"

text \<open>\<^verbatim>\<open>not obj.get(field)\<close>: the key is absent, or its value is empty or zero.\<close>

definition not_get :: "recipe_data \<Rightarrow> string \<Rightarrow> bool" where
  "not_get obj field =
     (if field = ''name'' then data_name obj = None \<or> data_name obj = Some []
      else if field = ''text'' then data_text obj = None \<or> data_text obj = Some []
      else if field = ''cooking_time''
        then data_cooking_time obj = None \<or> data_cooking_time obj = Some 0
      else if field = ''tags'' then data_tags obj = None \<or> data_tags obj = Some []
      else if field = ''ingredients''
        then data_ingredients obj = None \<or> data_ingredients obj = Some []
      else if field = ''image'' then data_image obj = None \<or> data_image obj = Some []
      else True)"

text \<open>
  \<^verbatim>\<open>RecipeCreateSerializer.validate\<close>. Where the ingredient ids are collected the key
  \<^verbatim>\<open>ingredients\<close> is present, by the check before; \<^verbatim>\<open>item['id']\<close> raises \<^verbatim>\<open>KeyError\<close> for
  an entry without the key \<^verbatim>\<open>id\<close>.
\<close>

definition validate :: "recipe_data \<Rightarrow> error + recipe_data" where
  "validate obj =
     (case find (not_get obj) [''name'', ''text'', ''cooking_time''] of
        Some field \<Rightarrow> Inl (ValidationError (Field_required field))
      | None \<Rightarrow>
          if not_get obj ''tags'' then Inl (ValidationError Min_one_tag)
          else if not_get obj ''ingredients'' then Inl (ValidationError Min_one_ingredient)
          else if None \<in> set (map fst (the (data_ingredients obj))) then Inl KeyError
          else
            let inrgedient_id_list = map (the \<circ> fst) (the (data_ingredients obj));
                unique_ingredient_id_list = set inrgedient_id_list
            in if length inrgedient_id_list \<noteq> card unique_ingredient_id_list
               then Inl (ValidationError Ingredients_not_unique)
               else Inr obj)"

text \<open>
  The inputs on which \<open>validate\<close> is said to raise a validation error: a required value
  is missing, empty or zero, or two entries of the ingredient list carry the same
  ingredient id.
\<close>

definition invalid_recipe_data :: "recipe_data \<Rightarrow> bool" where
  "invalid_recipe_data obj =
     (data_name obj = None \<or> data_name obj = Some []
      \<or> data_text obj = None \<or> data_text obj = Some []
      \<or> data_cooking_time obj = None \<or> data_cooking_time obj = Some 0
      \<or> data_tags obj = None \<or> data_tags obj = Some []
      \<or> data_ingredients obj = None \<or> data_ingredients obj = Some []
      \<or> (\<exists>items i j pk. data_ingredients obj = Some items \<and> i < j \<and> j < length items
            \<and> fst (items ! i) = Some pk \<and> fst (items ! j) = Some pk))"

text \<open>An entry of the ingredient list has no key \<^verbatim>\<open>id\<close>.\<close>

definition entry_without_id :: "recipe_data \<Rightarrow> bool" where
  "entry_without_id obj =
     (\<exists>items. data_ingredients obj = Some items \<and> None \<in> set (map fst items))"

section \<open>The subscription representation of a user\<close>

record recipe_small =
  small_id :: int
  small_name :: string
  small_image :: string
  small_cooking_time :: int

definition RecipeSmallSerializer :: "recipe \<Rightarrow> recipe_small" where
  "RecipeSmallSerializer obj =
     \<lparr>small_id = recipe_id obj, small_name = recipe_name obj,
      small_image = recipe_image obj, small_cooking_time = recipe_cooking_time obj\<rparr>"

text \<open>
  \<^verbatim>\<open>obj.recipes.all()\<close> are the recipes whose author is \<open>obj\<close>. A non-empty
  \<^verbatim>\<open>recipes_limit\<close> slices them with \<^verbatim>\<open>[:int(recipes_limit)]\<close>: \<^verbatim>\<open>int\<close> raises for a text
  that is no integer, the slice of a query set raises for a negative bound, and the
  bound becomes the \<^verbatim>\<open>LIMIT\<close> of the query, which the database refuses from \<open>2 ^ 63\<close> on.
\<close>

definition obj_recipes :: "database \<Rightarrow> user \<Rightarrow> recipe list" where
  "obj_recipes db obj = filter (\<lambda>r. recipe_author r = user_id obj) (recipes db)"

definition get_recipes :: "database \<Rightarrow> request option \<Rightarrow> user \<Rightarrow> error + recipe_small list" where
  "get_recipes db context obj =
     (let recipes_limit = (case context of
                             None \<Rightarrow> None
                           | Some request \<Rightarrow> recipes_limit_param request)
      in case recipes_limit of
           None \<Rightarrow> Inr (map RecipeSmallSerializer (obj_recipes db obj))
         | Some limit \<Rightarrow>
             if query_text limit = [] then Inr (map RecipeSmallSerializer (obj_recipes db obj))
             else (case query_int limit of
                     None \<Rightarrow> Inl ValueError
                   | Some n \<Rightarrow>
                       if n < 0 then Inl Negative_indexing
                       else if 2 ^ 63 \<le> n then Inl Database_error
                       else Inr (map RecipeSmallSerializer
                                   (take (nat n) (obj_recipes db obj)))))"

definition get_recipes_count :: "database \<Rightarrow> user \<Rightarrow> nat" where
  "get_recipes_count db obj = length (obj_recipes db obj)"

record user_subscribe_represent =
  repr_email :: string
  repr_id :: int
  repr_username :: string
  repr_first_name :: string
  repr_last_name :: string
  repr_is_subscribed :: bool
  repr_recipes :: "recipe_small list"
  repr_recipes_count :: nat

definition UserSubscribeRepresentSerializer ::
  "database \<Rightarrow> request option \<Rightarrow> user \<Rightarrow> error + user_subscribe_represent" where
  "UserSubscribeRepresentSerializer db context obj =
     (case get_is_subscribed db context obj of
        Inl e \<Rightarrow> Inl e
      | Inr is_subscribed \<Rightarrow>
          (case get_recipes db context obj of
             Inl e \<Rightarrow> Inl e
           | Inr recipes_field \<Rightarrow>
               Inr \<lparr>repr_email = email obj, repr_id = user_id obj,
                    repr_username = username obj, repr_first_name = first_name obj,
                    repr_last_name = last_name obj, repr_is_subscribed = is_subscribed,
                    repr_recipes = recipes_field,
                    repr_recipes_count = get_recipes_count db obj\<rparr>))"

section \<open>Example data\<close>

text \<open>
  A small database for the concrete instances below: three users, user 1 follows users 2
  and 3, user 2 has written recipes 10, 11 and 12, and recipes 10 and 11 are in the
  shopping cart of user 1.
\<close>

definition example_user :: "int \<Rightarrow> user" where
  "example_user k =
     \<lparr>user_id = k, email = ''u@example.org'', username = ''u'',
      first_name = ''f'', last_name = ''l''\<rparr>"

definition example_recipe :: "int \<Rightarrow> int \<Rightarrow> recipe" where
  "example_recipe k a =
     \<lparr>recipe_id = k, recipe_author = a, recipe_name = ''soup'', recipe_image = ''img'',
      recipe_text = ''boil'', recipe_cooking_time = 10\<rparr>"

definition example_db :: database where
  "example_db =
     \<lparr>users = [example_user 1, example_user 2, example_user 3],
      subscriptions = [(1, 2), (1, 3)],
      tag_ids = [1, 2],
      ingredients =
        [\<lparr>ingredient_id = 1, ingredient_name = ''salt'', ingredient_measurement_unit = ''g''\<rparr>,
         \<lparr>ingredient_id = 2, ingredient_name = ''milk'', ingredient_measurement_unit = ''ml''\<rparr>,
         \<lparr>ingredient_id = 3, ingredient_name = ''salt'', ingredient_measurement_unit = ''g''\<rparr>],
      recipes = [example_recipe 10 2, example_recipe 11 2, example_recipe 12 2],
      recipe_tags = [(10, 1), (11, 2)],
      recipe_ingredients =
        [\<lparr>ri_recipe = 10, ri_ingredient = 1, ri_amount = 5\<rparr>,
         \<lparr>ri_recipe = 10, ri_ingredient = 2, ri_amount = 200\<rparr>,
         \<lparr>ri_recipe = 11, ri_ingredient = 3, ri_amount = 7\<rparr>,
         \<lparr>ri_recipe = 12, ri_ingredient = 2, ri_amount = 100\<rparr>],
      favorites = [(1, 10)],
      carts = [(1, 10), (1, 11)]\<rparr>"

definition example_request :: "int option \<Rightarrow> request" where
  "example_request u = \<lparr>request_user = u, recipes_limit_param = None, page_param = None\<rparr>"

section \<open>Subscriptions, favorites and the shopping cart\<close>

datatype http_method = POST | DELETE

text \<open>
  A response is its status; a 201 response carries the serializer's data, a 400 response
  of a \<^verbatim>\<open>DELETE\<close> action its \<^verbatim>\<open>errors\<close> text.
\<close>

datatype 'a response =
    HTTP_201_CREATED 'a
  | HTTP_204_NO_CONTENT
  | HTTP_400_BAD_REQUEST message

definition user_pks :: "database \<Rightarrow> int list" where
  "user_pks db = map user_id (users db)"

definition recipe_pks :: "database \<Rightarrow> int list" where
  "recipe_pks db = map recipe_id (recipes db)"

text \<open>
  \<^verbatim>\<open>UserSubscribeSerializer(data={'user': .., 'author': ..}).is_valid(raise_exception=True)\<close>:
  the two related fields are looked up, then the \<^verbatim>\<open>UniqueTogetherValidator\<close> runs, then
  \<^verbatim>\<open>validate\<close>.
\<close>

definition UserSubscribeSerializer_is_valid ::
  "database \<Rightarrow> request \<Rightarrow> int \<times> int \<Rightarrow> error + int \<times> int" where
  "UserSubscribeSerializer_is_valid db request data =
     (if fst data \<notin> set (user_pks db) \<or> snd data \<notin> set (user_pks db)
        then Inl (ValidationError Invalid_pk)
      else if exists (filter (\<lambda>row. fst row = fst data \<and> snd row = snd data)
                        (subscriptions db))
        then Inl (ValidationError Already_subscribed)
      else if request_user request = Some (snd data)
        then Inl (ValidationError Self_subscribe)
      else Inr data)"

text \<open>
  \<^verbatim>\<open>UserViewSet.subscribe\<close>. The saved row is kept when the representation of the author,
  built for the body of the 201 response, raises.
\<close>

definition subscribe ::
  "database \<Rightarrow> request \<Rightarrow> http_method \<Rightarrow> int
     \<Rightarrow> database \<times> (error + user_subscribe_represent response)" where
  "subscribe db request method id' =
     (case request_user request of
        None \<Rightarrow> (db, Inl NotAuthenticated)
      | Some u \<Rightarrow>
          (case find (\<lambda>a. user_id a = id') (users db) of
             None \<Rightarrow> (db, Inl Http404)
           | Some author \<Rightarrow>
               (case method of
                  POST \<Rightarrow>
                    (case UserSubscribeSerializer_is_valid db request (u, user_id author) of
                       Inl e \<Rightarrow> (db, Inl e)
                     | Inr data \<Rightarrow>
                         let saved = db\<lparr>subscriptions := subscriptions db @ [data]\<rparr>
                         in (case UserSubscribeRepresentSerializer saved (Some request) author of
                               Inl e \<Rightarrow> (saved, Inl e)
                             | Inr body \<Rightarrow> (saved, Inr (HTTP_201_CREATED body))))
                | DELETE \<Rightarrow>
                    let rows = filter (\<lambda>row. fst row = u \<and> snd row = user_id author)
                                 (subscriptions db)
                    in if \<not> exists rows
                         then (db, Inr (HTTP_400_BAD_REQUEST Not_subscribed))
                       else if length rows \<noteq> 1 then (db, Inl MultipleObjectsReturned)
                       else (db\<lparr>subscriptions :=
                                  filter (\<lambda>row. \<not> (fst row = u \<and> snd row = user_id author))
                                    (subscriptions db)\<rparr>,
                             Inr HTTP_204_NO_CONTENT))))"

text \<open>
  \<^verbatim>\<open>FavoriteSerializer\<close> and \<^verbatim>\<open>ShoppingCartSerializer\<close> differ in their model and in the
  message of their validator; \<^verbatim>\<open>create_model_instance\<close> and \<^verbatim>\<open>delete_model_instance\<close> take
  the serializer, respectively the model, as an argument.
\<close>

datatype model_name = Favorite | ShoppingCart

datatype serializer_name = FavoriteSerializer | ShoppingCartSerializer

fun serializer_model :: "serializer_name \<Rightarrow> model_name" where
  "serializer_model FavoriteSerializer = Favorite"
| "serializer_model ShoppingCartSerializer = ShoppingCart"

fun serializer_message :: "serializer_name \<Rightarrow> message" where
  "serializer_message FavoriteSerializer = Already_favorited"
| "serializer_message ShoppingCartSerializer = Already_in_cart"

fun objects :: "model_name \<Rightarrow> database \<Rightarrow> (int \<times> int) list" where
  "objects Favorite db = favorites db"
| "objects ShoppingCart db = carts db"

fun objects_update :: "model_name \<Rightarrow> (int \<times> int) list \<Rightarrow> database \<Rightarrow> database" where
  "objects_update Favorite rows db = db\<lparr>favorites := rows\<rparr>"
| "objects_update ShoppingCart rows db = db\<lparr>carts := rows\<rparr>"

definition serializer_is_valid ::
  "serializer_name \<Rightarrow> database \<Rightarrow> int option \<times> int \<Rightarrow> error + int \<times> int" where
  "serializer_is_valid serializer db data =
     (case fst data of
        None \<Rightarrow> Inl (ValidationError Null_not_allowed)
      | Some u \<Rightarrow>
          if u \<notin> set (user_pks db) \<or> snd data \<notin> set (recipe_pks db)
            then Inl (ValidationError Invalid_pk)
          else if exists (filter (\<lambda>row. fst row = u \<and> snd row = snd data)
                            (objects (serializer_model serializer) db))
            then Inl (ValidationError (serializer_message serializer))
          else Inr (u, snd data))"

definition create_model_instance ::
  "database \<Rightarrow> request \<Rightarrow> recipe \<Rightarrow> serializer_name
     \<Rightarrow> database \<times> (error + recipe_small response)" where
  "create_model_instance db request instance serializer =
     (case serializer_is_valid serializer db (request_user request, recipe_id instance) of
        Inl e \<Rightarrow> (db, Inl e)
      | Inr data \<Rightarrow>
          (objects_update (serializer_model serializer)
             (objects (serializer_model serializer) db @ [data]) db,
           Inr (HTTP_201_CREATED (RecipeSmallSerializer instance))))"

text \<open>
  \<^verbatim>\<open>delete_model_instance\<close>. The filter on \<^verbatim>\<open>user=request.user\<close> raises for the anonymous
  user, who is no row of the user table.
\<close>

definition delete_model_instance ::
  "database \<Rightarrow> request \<Rightarrow> model_name \<Rightarrow> recipe \<Rightarrow> message
     \<Rightarrow> database \<times> (error + recipe_small response)" where
  "delete_model_instance db request model instance error_message =
     (case request_user request of
        None \<Rightarrow> (db, Inl TypeError)
      | Some u \<Rightarrow>
          if \<not> exists (filter (\<lambda>row. fst row = u \<and> snd row = recipe_id instance)
                           (objects model db))
            then (db, Inr (HTTP_400_BAD_REQUEST error_message))
          else (objects_update model
                  (filter (\<lambda>row. \<not> (fst row = u \<and> snd row = recipe_id instance))
                     (objects model db)) db,
                Inr HTTP_204_NO_CONTENT))"

definition favorite ::
  "database \<Rightarrow> request \<Rightarrow> http_method \<Rightarrow> int
     \<Rightarrow> database \<times> (error + recipe_small response)" where
  "favorite db request method pk =
     (if \<not> is_authenticated request then (db, Inl NotAuthenticated)
      else case find (\<lambda>r. recipe_id r = pk) (recipes db) of
             None \<Rightarrow> (db, Inl Http404)
           | Some recipe \<Rightarrow>
               (case method of
                  POST \<Rightarrow> create_model_instance db request recipe FavoriteSerializer
                | DELETE \<Rightarrow> delete_model_instance db request Favorite recipe Not_favorited))"

definition shopping_cart ::
  "database \<Rightarrow> request \<Rightarrow> http_method \<Rightarrow> int
     \<Rightarrow> database \<times> (error + recipe_small response)" where
  "shopping_cart db request method pk =
     (if \<not> is_authenticated request then (db, Inl NotAuthenticated)
      else case find (\<lambda>r. recipe_id r = pk) (recipes db) of
             None \<Rightarrow> (db, Inl Http404)
           | Some recipe \<Rightarrow>
               (case method of
                  POST \<Rightarrow> create_model_instance db request recipe ShoppingCartSerializer
                | DELETE \<Rightarrow> delete_model_instance db request ShoppingCart recipe Not_in_cart))"

section \<open>Creating and updating a recipe\<close>

text \<open>
  \<^verbatim>\<open>@transaction.atomic\<close>: the body runs on the database; when it raises, the database is
  the one from before the body and the exception goes on to the caller.
\<close>

definition atomic ::
  "(database \<Rightarrow> database \<times> (error + 'a)) \<Rightarrow> database \<Rightarrow> database \<times> (error + 'a)" where
  "atomic body db =
     (case body db of
        (db', Inl e) \<Rightarrow> (db, Inl e)
      | (db', Inr v) \<Rightarrow> (db', Inr v))"

text \<open>
  \<^verbatim>\<open>recipe.tags.set(tags)\<close>: the rows of the recipe whose tag is not among \<open>tags\<close> are
  removed, and one row is added for each tag of \<open>tags\<close> that the recipe did not have.
\<close>

definition tags_set :: "database \<Rightarrow> int \<Rightarrow> int list \<Rightarrow> database" where
  "tags_set db recipe tags =
     (let old_ids = map snd (filter (\<lambda>row. fst row = recipe) (recipe_tags db));
          kept = filter (\<lambda>row. \<not> (fst row = recipe \<and> snd row \<notin> set tags)) (recipe_tags db);
          new_objs = remdups (filter (\<lambda>t. t \<notin> set old_ids) tags)
      in db\<lparr>recipe_tags := kept @ map (Pair recipe) new_objs\<rparr>)"

text \<open>\<^verbatim>\<open>Ingredient.objects.get(pk=..)\<close> raises \<^verbatim>\<open>DoesNotExist\<close> when no row has the key.\<close>

definition Ingredient_get :: "database \<Rightarrow> int \<Rightarrow> error + ingredient" where
  "Ingredient_get db pk =
     (case find (\<lambda>i. ingredient_id i = pk) (ingredients db) of
        None \<Rightarrow> Inl DoesNotExist
      | Some i \<Rightarrow> Inr i)"

text \<open>
  The list comprehension of \<^verbatim>\<open>tags_and_ingredients_set\<close>: one \<^verbatim>\<open>RecipeIngredient\<close> per entry,
  in the order of the entries. Of an entry first \<^verbatim>\<open>ingredient['id']\<close> is read and looked
  up, then \<^verbatim>\<open>ingredient['amount']\<close> is read; a missing key raises \<^verbatim>\<open>KeyError\<close>, and the
  first entry that raises ends the comprehension.
\<close>

fun new_rows ::
  "database \<Rightarrow> int \<Rightarrow> (int option \<times> int option) list \<Rightarrow> error + recipe_ingredient list" where
  "new_rows db recipe [] = Inr []"
| "new_rows db recipe (ingredient # rest) =
     (case fst ingredient of
        None \<Rightarrow> Inl KeyError
      | Some pk \<Rightarrow>
          (case Ingredient_get db pk of
             Inl e \<Rightarrow> Inl e
           | Inr i \<Rightarrow>
               (case snd ingredient of
                  None \<Rightarrow> Inl KeyError
                | Some amount \<Rightarrow>
                    (case new_rows db recipe rest of
                       Inl e \<Rightarrow> Inl e
                     | Inr rows \<Rightarrow>
                         Inr (\<lparr>ri_recipe = recipe, ri_ingredient = ingredient_id i,
                               ri_amount = amount\<rparr> # rows)))))"

definition tags_and_ingredients_set ::
  "database \<Rightarrow> int \<Rightarrow> int list \<Rightarrow> (int option \<times> int option) list
     \<Rightarrow> database \<times> (error + unit)" where
  "tags_and_ingredients_set db recipe tags ingredients_arg =
     atomic
       (\<lambda>db. let db1 = tags_set db recipe tags
              in case new_rows db1 recipe ingredients_arg of
                   Inl e \<Rightarrow> (db1, Inl e)
                 | Inr rows \<Rightarrow>
                     (db1\<lparr>recipe_ingredients := recipe_ingredients db1 @ rows\<rparr>, Inr ()))
       db"

text \<open>The key of a new row: one more than the largest key of the table.\<close>

definition new_pk :: "int list \<Rightarrow> int" where
  "new_pk pks = fold max pks 0 + 1"

text \<open>
  \<^verbatim>\<open>RecipeCreateSerializer.create\<close>. The keys \<^verbatim>\<open>tags\<close> and \<^verbatim>\<open>ingredients\<close> are popped (a
  missing key raises \<^verbatim>\<open>KeyError\<close>), the remaining keys become the columns of the new row.
  The field validation of a create request makes the four remaining keys present.
  Without them, the text columns \<^verbatim>\<open>image\<close>, \<^verbatim>\<open>name\<close> and \<^verbatim>\<open>text\<close> are stored empty, and a
  row without a cooking time is refused.
\<close>

definition create :: "database \<Rightarrow> request \<Rightarrow> recipe_data \<Rightarrow> database \<times> (error + recipe)" where
  "create db request validated_data =
     atomic
       (\<lambda>db.
          case data_tags validated_data of
            None \<Rightarrow> (db, Inl KeyError)
          | Some tags \<Rightarrow>
             (case data_ingredients validated_data of
                None \<Rightarrow> (db, Inl KeyError)
              | Some ingredients_arg \<Rightarrow>
                 (case request_user request of
                    None \<Rightarrow> (db, Inl ValueError)
                  | Some author \<Rightarrow>
                     (case data_cooking_time validated_data of
                        None \<Rightarrow> (db, Inl IntegrityError)
                      | Some cooking_time \<Rightarrow>
                          let recipe =
                                \<lparr>recipe_id = new_pk (recipe_pks db), recipe_author = author,
                                 recipe_name = (case data_name validated_data of
                                                  None \<Rightarrow> [] | Some v \<Rightarrow> v),
                                 recipe_image = (case data_image validated_data of
                                                   None \<Rightarrow> [] | Some v \<Rightarrow> v),
                                 recipe_text = (case data_text validated_data of
                                                  None \<Rightarrow> [] | Some v \<Rightarrow> v),
                                 recipe_cooking_time = cooking_time\<rparr>;
                              db1 = db\<lparr>recipes := recipes db @ [recipe]\<rparr>
                          in (case tags_and_ingredients_set db1 (recipe_id recipe) tags
                                     ingredients_arg of
                                (db2, Inl e) \<Rightarrow> (db2, Inl e)
                              | (db2, Inr u) \<Rightarrow> (db2, Inr recipe))))))
       db"

text \<open>\<^verbatim>\<open>instance.save()\<close>: the row with the key of the instance is overwritten.\<close>

definition save :: "database \<Rightarrow> recipe \<Rightarrow> database" where
  "save db instance =
     (if recipe_id instance \<in> set (recipe_pks db)
      then db\<lparr>recipes := map (\<lambda>r. if recipe_id r = recipe_id instance then instance else r)
                              (recipes db)\<rparr>
      else db\<lparr>recipes := recipes db @ [instance]\<rparr>)"

text \<open>
  Modelled from the spec: \<^verbatim>\<open>recipes.models\<close> is not among the sources, so the declaration
  of \<^verbatim>\<open>Recipe.ingredients\<close> is missing. Over "normalized relational tables" of "recipes
  with ingredients" it is taken as the many-to-many relation to \<^verbatim>\<open>Ingredient\<close> whose rows
  are the \<^verbatim>\<open>RecipeIngredient\<close> rows: \<^verbatim>\<open>instance.ingredients.all()\<close> are the ingredients
  that a \<^verbatim>\<open>RecipeIngredient\<close> row attaches to the recipe.
\<close>

definition instance_ingredients :: "database \<Rightarrow> recipe \<Rightarrow> ingredient list" where
  "instance_ingredients db instance =
     filter (\<lambda>i. ingredient_id i
                    \<in> set (map ri_ingredient
                             (filter (\<lambda>ri. ri_recipe ri = recipe_id instance)
                                (recipe_ingredients db))))
       (ingredients db)"

definition update :: "database \<Rightarrow> recipe \<Rightarrow> recipe_data \<Rightarrow> database \<times> (error + recipe)" where
  "update db instance validated_data =
     atomic
       (\<lambda>db.
          let changed = instance
                \<lparr>recipe_image := (case data_image validated_data of
                                    None \<Rightarrow> recipe_image instance | Some v \<Rightarrow> v),
                 recipe_name := (case data_name validated_data of
                                   None \<Rightarrow> recipe_name instance | Some v \<Rightarrow> v),
                 recipe_text := (case data_text validated_data of
                                   None \<Rightarrow> recipe_text instance | Some v \<Rightarrow> v),
                 recipe_cooking_time := (case data_cooking_time validated_data of
                                           None \<Rightarrow> recipe_cooking_time instance
                                         | Some v \<Rightarrow> v)\<rparr>
          in
          case data_tags validated_data of
            None \<Rightarrow> (db, Inl KeyError)
          | Some tags \<Rightarrow>
           (case data_ingredients validated_data of
            None \<Rightarrow> (db, Inl KeyError)
          | Some ingredients_arg \<Rightarrow>
              let db1 = db\<lparr>recipe_ingredients :=
                             filter (\<lambda>ri. \<not> (ri_recipe ri = recipe_id instance
                                              \<and> ri_ingredient ri
                                                  \<in> set (map ingredient_id
                                                           (instance_ingredients db instance))))
                               (recipe_ingredients db)\<rparr>
              in (case tags_and_ingredients_set db1 (recipe_id instance) tags ingredients_arg of
                    (db2, Inl e) \<Rightarrow> (db2, Inl e)
                  | (db2, Inr u) \<Rightarrow> (save db2 changed, Inr changed))))
       db"

definition example_data :: recipe_data where
  "example_data =
     \<lparr>data_ingredients = Some [(Some 2, Some 30), (Some 3, Some 4)], data_tags = Some [2, 2],
      data_image = Some ''pic'', data_name = Some ''stew'', data_text = Some ''simmer'',
      data_cooking_time = Some 45\<rparr>"

text \<open>
  The data of a \<^verbatim>\<open>PATCH\<close> request whose only ingredient entry is \<^verbatim>\<open>{"amount": 5}\<close>, after
  the field validation.
\<close>

definition example_patch_data :: recipe_data where
  "example_patch_data =
     \<lparr>data_ingredients = Some [(None, Some 5)], data_tags = Some [1],
      data_image = None, data_name = Some ''soup'', data_text = Some ''boil'',
      data_cooking_time = Some 10\<rparr>"

section \<open>The operations that write\<close>

text \<open>
  Modelled from the spec: \<^verbatim>\<open>recipes.models\<close> is not among the sources, so what the
  foreign keys to \<^verbatim>\<open>Recipe\<close> do on deletion is missing. Over "normalized relational
  tables", \<^verbatim>\<open>instance.delete()\<close> of the \<^verbatim>\<open>destroy\<close> action that \<^verbatim>\<open>RecipeViewSet\<close>
  inherits deletes the recipe together with the rows that point to it: its tag rows,
  its \<^verbatim>\<open>RecipeIngredient\<close> rows, its \<^verbatim>\<open>Favorite\<close> and \<^verbatim>\<open>ShoppingCart\<close> rows.
\<close>

definition destroy :: "database \<Rightarrow> recipe \<Rightarrow> database" where
  "destroy db instance =
     db\<lparr>recipes := filter (\<lambda>r. recipe_id r \<noteq> recipe_id instance) (recipes db),
        recipe_tags := filter (\<lambda>row. fst row \<noteq> recipe_id instance) (recipe_tags db),
        recipe_ingredients :=
          filter (\<lambda>ri. ri_recipe ri \<noteq> recipe_id instance) (recipe_ingredients db),
        favorites := filter (\<lambda>row. snd row \<noteq> recipe_id instance) (favorites db),
        carts := filter (\<lambda>row. snd row \<noteq> recipe_id instance) (carts db)\<rparr>"

text \<open>
  A create or update request of a recipe: \<^verbatim>\<open>serializer.is_valid\<close> runs \<open>validate\<close>, then
  \<^verbatim>\<open>serializer.save\<close> runs \<open>create\<close>, respectively \<open>update\<close> on the recipe that the
  view has looked up.
\<close>

definition recipe_create :: "database \<Rightarrow> request \<Rightarrow> recipe_data \<Rightarrow> database \<times> (error + recipe)" where
  "recipe_create db request data =
     (case validate data of
        Inl e \<Rightarrow> (db, Inl e)
      | Inr obj \<Rightarrow> create db request obj)"

definition recipe_update :: "database \<Rightarrow> int \<Rightarrow> recipe_data \<Rightarrow> database \<times> (error + recipe)" where
  "recipe_update db pk data =
     (case find (\<lambda>r. recipe_id r = pk) (recipes db) of
        None \<Rightarrow> (db, Inl Http404)
      | Some instance \<Rightarrow>
          (case validate data of
             Inl e \<Rightarrow> (db, Inl e)
           | Inr obj \<Rightarrow> update db instance obj))"

definition recipe_destroy :: "database \<Rightarrow> int \<Rightarrow> database \<times> (error + unit response)" where
  "recipe_destroy db pk =
     (case find (\<lambda>r. recipe_id r = pk) (recipes db) of
        None \<Rightarrow> (db, Inl Http404)
      | Some instance \<Rightarrow> (destroy db instance, Inr HTTP_204_NO_CONTENT))"

text \<open>
  The requests that change the database, and the database after each. The remaining
  actions (lists, single objects, \<open>subscriptions\<close>, \<open>download_shopping_cart\<close>) only read.
\<close>

datatype operation =
    Subscribe http_method int
  | Favorite_action http_method int
  | Shopping_cart_action http_method int
  | Recipe_create recipe_data
  | Recipe_update int recipe_data
  | Recipe_destroy int

fun perform :: "database \<Rightarrow> request \<Rightarrow> operation \<Rightarrow> database" where
  "perform db request (Subscribe method pk) = fst (subscribe db request method pk)"
| "perform db request (Favorite_action method pk) = fst (favorite db request method pk)"
| "perform db request (Shopping_cart_action method pk)
     = fst (shopping_cart db request method pk)"
| "perform db request (Recipe_create data) = fst (recipe_create db request data)"
| "perform db request (Recipe_update pk data) = fst (recipe_update db pk data)"
| "perform db request (Recipe_destroy pk) = fst (recipe_destroy db pk)"

text \<open>
  At most one \<^verbatim>\<open>Subscription\<close> row per pair (user, author), at most one \<^verbatim>\<open>Favorite\<close> row
  and at most one \<^verbatim>\<open>ShoppingCart\<close> row per pair (user, recipe).
\<close>

definition unique_together :: "database \<Rightarrow> bool" where
  "unique_together db =
     (distinct (subscriptions db) \<and> distinct (favorites db) \<and> distinct (carts db))"

section \<open>The shopping list\<close>

text \<open>
  \<^verbatim>\<open>RecipeIngredient.objects.filter(recipe__carts__user=request.user)\<close> joins the
  \<^verbatim>\<open>RecipeIngredient\<close> rows with the cart rows of their recipe: a row comes once for each
  cart row of the user that holds its recipe.
\<close>

definition cart_rows :: "database \<Rightarrow> request \<Rightarrow> recipe_ingredient list" where
  "cart_rows db request =
     concat (map (\<lambda>ri. map (\<lambda>cart. ri)
                          (filter (\<lambda>cart. Some (fst cart) = request_user request
                                           \<and> snd cart = ri_recipe ri)
                             (carts db)))
               (recipe_ingredients db))"

text \<open>
  \<^verbatim>\<open>ingredient__name\<close> and \<^verbatim>\<open>ingredient__measurement_unit\<close> of a row: the two columns of the
  ingredient that the row points to.
\<close>

definition ingredient_key :: "database \<Rightarrow> recipe_ingredient \<Rightarrow> (string \<times> string) option" where
  "ingredient_key db ri =
     (case find (\<lambda>i. ingredient_id i = ri_ingredient ri) (ingredients db) of
        None \<Rightarrow> None
      | Some i \<Rightarrow> Some (ingredient_name i, ingredient_measurement_unit i))"

text \<open>\<^verbatim>\<open>.values('ingredient__name', 'ingredient__measurement_unit')\<close>, with the amount.\<close>

definition values_rows ::
  "database \<Rightarrow> recipe_ingredient list \<Rightarrow> ((string \<times> string) \<times> int) list" where
  "values_rows db rows =
     concat (map (\<lambda>ri. case ingredient_key db ri of
                          None \<Rightarrow> []
                        | Some key \<Rightarrow> [(key, ri_amount ri)])
               rows)"

text \<open>
  \<^verbatim>\<open>.annotate(ingredient_amount=Sum('amount'))\<close> after \<^verbatim>\<open>values\<close>: one row for each value of
  the key, with the sum of the amounts of the rows that have it. The query has no
  \<^verbatim>\<open>ORDER BY\<close>, so the order of the groups is the database's: \<open>group_order\<close> is the
  arrangement that the database gives to the keys of the groups.
\<close>

definition annotate_sum :: "('k list \<Rightarrow> 'k list) \<Rightarrow> ('k \<times> int) list \<Rightarrow> ('k \<times> int) list" where
  "annotate_sum group_order rows =
     map (\<lambda>key. (key, sum_list (map snd (filter (\<lambda>row. fst row = key) rows))))
       (group_order (remdups (map fst rows)))"

definition shopping_cart_ingredients ::
  "((string \<times> string) list \<Rightarrow> (string \<times> string) list) \<Rightarrow> database \<Rightarrow> request
     \<Rightarrow> ((string \<times> string) \<times> int) list" where
  "shopping_cart_ingredients group_order db request =
     annotate_sum group_order (values_rows db (cart_rows db request))"

text \<open>The decimal digits of an integer, as an f-string writes it.\<close>

fun str_nat :: "nat \<Rightarrow> string" where
  "str_nat n =
     (if n < 10 then [char_of (48 + n)]
      else str_nat (n div 10) @ [char_of (48 + n mod 10)])"

declare str_nat.simps [simp del]

definition str_int :: "int \<Rightarrow> string" where
  "str_int i = (if i < 0 then CHR ''-'' # str_nat (nat (- i)) else str_nat (nat i))"

text \<open>
  The first element of \<^verbatim>\<open>shopping_list\<close>, a Russian title followed by a line feed, in the
  bytes of its UTF-8 encoding.
\<close>

definition shopping_list_title :: string where
  "shopping_list_title =
     map char_of
       [208, 161, 208, 191, 208, 184, 209, 129, 208, 190, 208, 186, 32, 208, 191, 208, 190,
        208, 186, 209, 131, 208, 191, 208, 190, 208, 186, 58, 10 :: nat]"

text \<open>\<^verbatim>\<open>f'\n{name} - {amount}, {unit}'\<close>\<close>

definition shopping_list_line :: "(string \<times> string) \<times> int \<Rightarrow> string" where
  "shopping_list_line ingredient =
     [CHR 0x0A] @ fst (fst ingredient) @ '' - '' @ str_int (snd ingredient) @ '', ''
       @ snd (fst ingredient)"

definition shopping_list ::
  "((string \<times> string) list \<Rightarrow> (string \<times> string) list) \<Rightarrow> database \<Rightarrow> request
     \<Rightarrow> string list" where
  "shopping_list group_order db request =
     shopping_list_title
       # map shopping_list_line (shopping_cart_ingredients group_order db request)"

text \<open>
  \<^verbatim>\<open>RecipeViewSet.download_shopping_cart\<close>: the content of the response is the
  concatenation of the elements of \<^verbatim>\<open>shopping_list\<close>.
\<close>

definition download_shopping_cart ::
  "((string \<times> string) list \<Rightarrow> (string \<times> string) list) \<Rightarrow> database \<Rightarrow> request
     \<Rightarrow> error + string" where
  "download_shopping_cart group_order db request =
     (if \<not> is_authenticated request then Inl NotAuthenticated
      else Inr (concat (shopping_list group_order db request)))"

section \<open>The subscriptions of a user\<close>










lemma length_card_distinct: "(length xs \<noteq> card (set xs)) = (\<not> distinct xs)"
proof (cases "distinct xs")
  case True
  then show ?thesis by (simp add: distinct_card)
next
  case False
  have "card (set xs) = length xs \<Longrightarrow> distinct xs" by (rule card_distinct)
  with False show ?thesis by auto
qed

lemma not_distinct_indices:
  "(\<not> distinct xs) = (\<exists>i j. i < j \<and> j < length xs \<and> xs ! i = xs ! j)"
proof
  assume "\<not> distinct xs"
  then obtain i j where ij: "i < length xs" "j < length xs" "i \<noteq> j" "xs ! i = xs ! j"
    unfolding distinct_conv_nth by blast
  show "\<exists>i j. i < j \<and> j < length xs \<and> xs ! i = xs ! j"
  proof (cases "i < j")
    case True
    with ij show ?thesis by blast
  next
    case False
    with ij have "j < i" by simp
    moreover from ij have "xs ! j = xs ! i" by simp
    ultimately show ?thesis using ij(1) by blast
  qed
next
  assume "\<exists>i j. i < j \<and> j < length xs \<and> xs ! i = xs ! j"
  then obtain i j where ij: "i < j" "j < length xs" "xs ! i = xs ! j" by blast
  then have "i < length xs" "i \<noteq> j" by simp_all
  with ij show "\<not> distinct xs"
    unfolding distinct_conv_nth by blast
qed

lemma dup_ids:
  assumes "None \<notin> set (map fst items)"
  shows "(length (map (the \<circ> fst) items) \<noteq> card (set (map (the \<circ> fst) items)))
     = (\<exists>i j pk. i < j \<and> j < length items
          \<and> fst (items ! i) = Some pk \<and> fst (items ! j) = Some pk)"
proof -
  have some: "fst (items ! k) = Some (the (fst (items ! k)))" if "k < length items" for k
  proof -
    from that have "fst (items ! k) \<in> set (map fst items)" by simp
    with assms have "fst (items ! k) \<noteq> None" by metis
    then show ?thesis by simp
  qed
  have "(\<exists>i j. i < j \<and> j < length (map (the \<circ> fst) items)
            \<and> map (the \<circ> fst) items ! i = map (the \<circ> fst) items ! j)
      = (\<exists>i j pk. i < j \<and> j < length items
            \<and> fst (items ! i) = Some pk \<and> fst (items ! j) = Some pk)"
  proof
    assume "\<exists>i j. i < j \<and> j < length (map (the \<circ> fst) items)
            \<and> map (the \<circ> fst) items ! i = map (the \<circ> fst) items ! j"
    then obtain i j where ij: "i < j" "j < length items"
      "map (the \<circ> fst) items ! i = map (the \<circ> fst) items ! j" by auto
    then have "i < length items" by simp
    with ij have eq: "the (fst (items ! i)) = the (fst (items ! j))" by simp
    from some [OF \<open>i < length items\<close>] some [OF ij(2)] eq
    have "fst (items ! i) = Some (the (fst (items ! i)))"
      "fst (items ! j) = Some (the (fst (items ! i)))" by simp_all
    with ij(1,2) show "\<exists>i j pk. i < j \<and> j < length items
            \<and> fst (items ! i) = Some pk \<and> fst (items ! j) = Some pk" by blast
  next
    assume "\<exists>i j pk. i < j \<and> j < length items
            \<and> fst (items ! i) = Some pk \<and> fst (items ! j) = Some pk"
    then obtain i j pk where ij: "i < j" "j < length items"
      "fst (items ! i) = Some pk" "fst (items ! j) = Some pk" by blast
    then have "i < length items" by simp
    with ij have "map (the \<circ> fst) items ! i = map (the \<circ> fst) items ! j" by simp
    moreover from ij(2) have "j < length (map (the \<circ> fst) items)" by simp
    ultimately show "\<exists>i j. i < j \<and> j < length (map (the \<circ> fst) items)
            \<and> map (the \<circ> fst) items ! i = map (the \<circ> fst) items ! j"
      using ij(1) by blast
  qed
  then show ?thesis
    unfolding length_card_distinct not_distinct_indices by simp
qed

lemma find_required:
  "find (not_get obj) [''name'', ''text'', ''cooking_time''] = None
   \<longleftrightarrow> \<not> (data_name obj = None \<or> data_name obj = Some []
      \<or> data_text obj = None \<or> data_text obj = Some []
      \<or> data_cooking_time obj = None \<or> data_cooking_time obj = Some 0)"
  by (simp add: not_get_def)

lemma validate_valid:
  assumes "\<not> invalid_recipe_data obj" and "\<not> entry_without_id obj"
  shows "validate obj = Inr obj"
proof -
  from assms(1) obtain items where items: "data_ingredients obj = Some items"
    by (cases "data_ingredients obj") (simp_all add: invalid_recipe_data_def)
  from assms(2) items have ids: "None \<notin> set (map fst items)"
    by (simp add: entry_without_id_def)
  from assms(1) have f: "find (not_get obj) [''name'', ''text'', ''cooking_time''] = None"
    unfolding find_required invalid_recipe_data_def by blast
  from assms(1) have t: "\<not> not_get obj ''tags''" "\<not> not_get obj ''ingredients''"
    by (simp_all add: not_get_def invalid_recipe_data_def)
  from assms(1) items
  have "\<not> (\<exists>i j pk. i < j \<and> j < length items
          \<and> fst (items ! i) = Some pk \<and> fst (items ! j) = Some pk)"
    unfolding invalid_recipe_data_def by blast
  then have d: "\<not> (length (map (the \<circ> fst) items) \<noteq> card (set (map (the \<circ> fst) items)))"
    unfolding dup_ids [OF ids] .
  show ?thesis
    using f t d ids items by (simp add: validate_def Let_def)
qed

lemma validate_invalid:
  assumes "invalid_recipe_data obj"
  shows "(\<exists>m. validate obj = Inl (ValidationError m))
         \<or> (validate obj = Inl KeyError \<and> entry_without_id obj)"
proof (cases "find (not_get obj) [''name'', ''text'', ''cooking_time'']")
  case (Some field)
  then show ?thesis by (simp add: validate_def)
next
  case None
  show ?thesis
  proof (cases "not_get obj ''tags'' \<or> not_get obj ''ingredients''")
    case True
    with None show ?thesis by (auto simp: validate_def)
  next
    case False
    then obtain items where items: "data_ingredients obj = Some items"
      by (cases "data_ingredients obj") (simp_all add: not_get_def)
    show ?thesis
    proof (cases "None \<in> set (map fst items)")
      case True
      with None False items show ?thesis
        by (simp add: validate_def entry_without_id_def)
    next
      case ids: False
      from None have r: "\<not> (data_name obj = None \<or> data_name obj = Some []
        \<or> data_text obj = None \<or> data_text obj = Some []
        \<or> data_cooking_time obj = None \<or> data_cooking_time obj = Some 0)"
        unfolding find_required .
      from False have t: "data_tags obj \<noteq> None" "data_tags obj \<noteq> Some []"
        "data_ingredients obj \<noteq> Some []"
        by (simp_all add: not_get_def)
      from assms r t items
      have "\<exists>i j pk. i < j \<and> j < length items
          \<and> fst (items ! i) = Some pk \<and> fst (items ! j) = Some pk"
        unfolding invalid_recipe_data_def by auto
      then have "length (map (the \<circ> fst) items) \<noteq> card (set (map (the \<circ> fst) items))"
        unfolding dup_ids [OF ids] .
      with None False items ids show ?thesis by (simp add: validate_def Let_def)
    qed
  qed
qed

lemma validate_without_id:
  assumes "\<not> invalid_recipe_data obj" and "entry_without_id obj"
  shows "validate obj = Inl KeyError"
proof -
  from assms(2) obtain items where items: "data_ingredients obj = Some items"
    "None \<in> set (map fst items)" by (auto simp: entry_without_id_def)
  from assms(1) have f: "find (not_get obj) [''name'', ''text'', ''cooking_time''] = None"
    unfolding find_required invalid_recipe_data_def by blast
  from assms(1) have t: "\<not> not_get obj ''tags''" "\<not> not_get obj ''ingredients''"
    by (simp_all add: not_get_def invalid_recipe_data_def)
  show ?thesis
    using f t items by (simp add: validate_def)
qed

text \<open>
  On the data of a request in which every ingredient entry has its \<^verbatim>\<open>id\<close>, \<open>validate\<close>
  raises a validation error exactly on the inputs of \<open>invalid_recipe_data\<close>, returns its
  input on the others, and raises nothing else.
\<close>

lemma validate_with_ids:
  assumes "\<not> entry_without_id obj"
  shows "((\<exists>m. validate obj = Inl (ValidationError m)) \<longleftrightarrow> invalid_recipe_data obj)
   \<and> (\<not> invalid_recipe_data obj \<longrightarrow> validate obj = Inr obj)
   \<and> (\<forall>e. validate obj = Inl e \<longrightarrow> (\<exists>m. e = ValidationError m))"
proof (cases "invalid_recipe_data obj")
  case True
  from validate_invalid [OF True] assms
  obtain m where "validate obj = Inl (ValidationError m)" by blast
  with True show ?thesis by simp
next
  case False
  from validate_valid [OF False assms] False show ?thesis by simp
qed

lemma validate_Inr:
  assumes "validate obj = Inr obj'"
  shows "obj' = obj \<and> \<not> invalid_recipe_data obj \<and> \<not> entry_without_id obj"
proof -
  have i: "\<not> invalid_recipe_data obj"
    using validate_invalid [of obj] assms by auto
  have w: "\<not> entry_without_id obj"
    using validate_without_id [OF i] assms by auto
  from validate_valid [OF i w] assms show ?thesis using i w by simp
qed

text \<open>
  C4. Validation is to raise a validation error exactly when the name or the text is
  missing or empty, the cooking time is missing or zero, the tag list or the ingredient
  list is missing or empty, or two entries carry the same ingredient id, and to return
  its input otherwise. The code misses this for an ingredient entry without \<^verbatim>\<open>id\<close>, which
  a \<^verbatim>\<open>PATCH\<close> request can carry: none of the listed conditions holds for the data below,
  and \<open>validate\<close> neither returns it nor raises a validation error, it raises
  \<^verbatim>\<open>KeyError\<close>. (On data whose entries all have their \<^verbatim>\<open>id\<close> it does what is said, by
  \<open>validate_with_ids\<close>.)
\<close>

theorem validate_entry_without_id_raises:
  "\<not> invalid_recipe_data example_patch_data
   \<and> validate example_patch_data = Inl KeyError"
proof -
  have "\<not> invalid_recipe_data example_patch_data"
    by (simp add: invalid_recipe_data_def example_patch_data_def)
  moreover have "validate example_patch_data = Inl KeyError"
    by (simp add: validate_def not_get_def example_patch_data_def)
  ultimately show ?thesis ..
qed

text \<open>
  C10. For a request of the anonymous user, \<open>is_subscribed\<close> of every user and
  \<open>is_favorited\<close> and \<open>is_in_shopping_cart\<close> of every recipe are \<open>False\<close>, whatever the
  subscription, favorite and shopping-cart tables hold.
\<close>

theorem unauthenticated_flags_false:
  "get_is_subscribed db (Some (request\<lparr>request_user := None\<rparr>)) u = Inr False
   \<and> get_is_favorited db (Some (request\<lparr>request_user := None\<rparr>)) r = Inr False
   \<and> get_is_in_shopping_cart db (Some (request\<lparr>request_user := None\<rparr>)) r = Inr False"
  by (simp add: get_is_subscribed_def get_is_favorited_def get_is_in_shopping_cart_def
      is_authenticated_def)

lemma get_recipes_limit:
  assumes "query_text limit \<noteq> []" and "query_int limit = Some n"
  shows "get_recipes db (Some (request\<lparr>recipes_limit_param := Some limit\<rparr>)) obj
         = (if n < 0 then Inl Negative_indexing
            else if 2 ^ 63 \<le> n then Inl Database_error
            else Inr (map RecipeSmallSerializer (take (nat n) (obj_recipes db obj))))"
  using assms by (simp add: get_recipes_def)

text \<open>
  C9 as stated fails for a negative integer and for an integer from \<open>2 ^ 63\<close> on: with
  \<^verbatim>\<open>recipes_limit=-1\<close> the slice raises, with \<^verbatim>\<open>recipes_limit=9223372036854775808\<close> the query
  does, and no \<open>recipes\<close> field is produced.
\<close>

theorem recipes_limit_out_of_range_counterexample:
  "get_recipes example_db
     (Some ((example_request (Some 1))
        \<lparr>recipes_limit_param := Some \<lparr>query_text = ''-1'', query_int = Some (- 1)\<rparr>\<rparr>))
     (example_user 2) = Inl Negative_indexing
   \<and> get_recipes example_db
     (Some ((example_request (Some 1))
        \<lparr>recipes_limit_param :=
           Some \<lparr>query_text = ''9223372036854775808'',
                 query_int = Some 9223372036854775808\<rparr>\<rparr>))
     (example_user 2) = Inl Database_error"
  by (simp add: get_recipes_def example_request_def)

text \<open>
  C9, amended. When the request carries a non-empty \<^verbatim>\<open>recipes_limit\<close> whose integer value
  \<open>n\<close> is at least 0 and less than \<open>2 ^ 63\<close>, the \<open>recipes\<close> field of the subscription
  representation holds the first \<open>n\<close> of the author's recipes, hence at most \<open>n\<close>, while
  \<open>recipes_count\<close> is the number of all recipes of the author.
\<close>

theorem recipes_limit_truncates:
  assumes "query_text limit \<noteq> []" and "query_int limit = Some n"
    and "0 \<le> n" and "n < 2 ^ 63"
  shows "\<exists>rep. UserSubscribeRepresentSerializer db
                  (Some (request\<lparr>recipes_limit_param := Some limit\<rparr>)) obj = Inr rep
           \<and> repr_recipes rep
               = map RecipeSmallSerializer
                   (take (nat n) (filter (\<lambda>r. recipe_author r = user_id obj) (recipes db)))
           \<and> int (length (repr_recipes rep)) \<le> n
           \<and> repr_recipes_count rep
               = length (filter (\<lambda>r. recipe_author r = user_id obj) (recipes db))"
proof -
  from assms have g: "get_recipes db (Some (request\<lparr>recipes_limit_param := Some limit\<rparr>)) obj
      = Inr (map RecipeSmallSerializer (take (nat n) (obj_recipes db obj)))"
    by (simp add: get_recipes_limit)
  from assms(3) have "int (length (take (nat n) (obj_recipes db obj))) \<le> n"
    by simp
  with g show ?thesis
    by (simp add: UserSubscribeRepresentSerializer_def get_is_subscribed_def
        get_recipes_count_def obj_recipes_def)
qed

theorem recipes_limit_truncates_witness:
  "\<exists>rep. UserSubscribeRepresentSerializer example_db
            (Some ((example_request (Some 1))
               \<lparr>recipes_limit_param := Some \<lparr>query_text = ''2'', query_int = Some 2\<rparr>\<rparr>))
            (example_user 2) = Inr rep
     \<and> map small_id (repr_recipes rep) = [10, 11]
     \<and> repr_recipes_count rep = 3"
proof -
  have "query_text \<lparr>query_text = ''2'', query_int = Some 2\<rparr> \<noteq> []"
    "query_int \<lparr>query_text = ''2'', query_int = Some 2\<rparr> = Some 2"
    "(0::int) \<le> 2" "(2::int) < 2 ^ 63" by simp_all
  from recipes_limit_truncates [OF this, of example_db
      "example_request (Some 1)" "example_user 2"]
  show ?thesis
    by (auto simp: example_db_def example_user_def example_recipe_def
        RecipeSmallSerializer_def)
qed

lemma find_user:
  "pk \<in> set (user_pks db)
   \<Longrightarrow> \<exists>a. find (\<lambda>a. user_id a = pk) (users db) = Some a \<and> user_id a = pk"
proof -
  assume "pk \<in> set (user_pks db)"
  then have "\<exists>x \<in> set (users db). user_id x = pk"
    by (auto simp: user_pks_def)
  then have "find (\<lambda>a. user_id a = pk) (users db) \<noteq> None"
    unfolding find_None_iff by blast
  then obtain a where a: "find (\<lambda>a. user_id a = pk) (users db) = Some a" by blast
  then have "user_id a = pk" by (auto simp: find_Some_iff)
  with a show ?thesis by blast
qed

lemma find_recipe:
  "pk \<in> set (recipe_pks db)
   \<Longrightarrow> \<exists>r. find (\<lambda>r. recipe_id r = pk) (recipes db) = Some r \<and> recipe_id r = pk"
proof -
  assume "pk \<in> set (recipe_pks db)"
  then have "\<exists>x \<in> set (recipes db). recipe_id x = pk"
    by (auto simp: recipe_pks_def)
  then have "find (\<lambda>r. recipe_id r = pk) (recipes db) \<noteq> None"
    unfolding find_None_iff by blast
  then obtain r where r: "find (\<lambda>r. recipe_id r = pk) (recipes db) = Some r" by blast
  then have "recipe_id r = pk" by (auto simp: find_Some_iff)
  with r show ?thesis by blast
qed

lemma exists_pair:
  "exists (filter (\<lambda>row. fst row = u \<and> snd row = v) rows) = ((u, v) \<in> set rows)"
proof -
  have "(\<lambda>row. fst row = u \<and> snd row = v) = (\<lambda>row. row = (u, v))"
    by auto
  then show ?thesis
    by (simp add: exists_def filter_empty_conv)
qed

lemma filter_not_pair:
  "filter (\<lambda>row. \<not> (fst row = u \<and> snd row = v)) rows = filter (\<lambda>row. row \<noteq> (u, v)) rows"
  by (rule filter_cong) auto

text \<open>
  C5. A subscribe request of an authenticated user that names the user itself as the
  author is rejected with a validation error, and the database, hence the subscription
  table, is left as it was.
\<close>

theorem self_subscribe_rejected:
  assumes "request_user request = Some u" and "u \<in> set (user_pks db)"
  shows "(\<exists>m. subscribe db request POST u = (db, Inl (ValidationError m)))
         \<and> subscriptions (fst (subscribe db request POST u)) = subscriptions db"
proof -
  from find_user [OF assms(2)] obtain a
    where a: "find (\<lambda>a. user_id a = u) (users db) = Some a" "user_id a = u" by blast
  have "\<exists>m. UserSubscribeSerializer_is_valid db request (u, u) = Inl (ValidationError m)"
    using assms by (simp add: UserSubscribeSerializer_is_valid_def)
  then obtain m where "UserSubscribeSerializer_is_valid db request (u, u)
      = Inl (ValidationError m)" ..
  with a assms(1) have "subscribe db request POST u = (db, Inl (ValidationError m))"
    by (simp add: subscribe_def)
  then show ?thesis by simp
qed

theorem self_subscribe_rejected_witness:
  "subscribe example_db (example_request (Some 1)) POST 1
     = (example_db, Inl (ValidationError Self_subscribe))"
proof -
  have "request_user (example_request (Some 1)) = Some 1"
    by (simp add: example_request_def)
  moreover have "1 \<in> set (user_pks example_db)"
    by (simp add: user_pks_def example_db_def example_user_def)
  ultimately have "\<exists>m. subscribe example_db (example_request (Some 1)) POST 1
      = (example_db, Inl (ValidationError m))"
    using self_subscribe_rejected [of "example_request (Some 1)" 1 example_db] by blast
  moreover have "UserSubscribeSerializer_is_valid example_db (example_request (Some 1)) (1, 1)
      = Inl (ValidationError Self_subscribe)"
    by (simp add: UserSubscribeSerializer_is_valid_def user_pks_def example_db_def
        example_user_def example_request_def exists_def)
  ultimately show ?thesis
    by (simp add: subscribe_def example_request_def example_db_def example_user_def)
qed

lemma delete_model_instance_cases:
  assumes "request_user request = Some u"
  shows "delete_model_instance db request model instance error_message
         = (if (u, recipe_id instance) \<notin> set (objects model db)
            then (db, Inr (HTTP_400_BAD_REQUEST error_message))
            else (objects_update model
                    (filter (\<lambda>row. row \<noteq> (u, recipe_id instance)) (objects model db)) db,
                  Inr HTTP_204_NO_CONTENT))"
proof -
  have "(\<lambda>row. \<not> (fst row = u \<and> snd row = recipe_id instance))
        = (\<lambda>row. row \<noteq> (u, recipe_id instance))"
    by auto
  then show ?thesis
    using assms by (simp add: delete_model_instance_def exists_pair)
qed

text \<open>
  C6. For an authenticated user and an existing recipe, a \<^verbatim>\<open>DELETE\<close> on \<open>favorite\<close>
  (respectively \<open>shopping_cart\<close>) answers 400 and leaves the database as it was when the
  table has no row for the pair (user, recipe), and otherwise answers 204 and removes
  the rows of that pair and no other row: the rest of that table and all other tables
  are unchanged.
\<close>

theorem delete_favorite_and_cart:
  assumes "request_user request = Some u" and "pk \<in> set (recipe_pks db)"
  shows "((u, pk) \<notin> set (favorites db) \<longrightarrow>
            favorite db request DELETE pk = (db, Inr (HTTP_400_BAD_REQUEST Not_favorited)))
       \<and> ((u, pk) \<in> set (favorites db) \<longrightarrow>
            favorite db request DELETE pk
              = (db\<lparr>favorites := filter (\<lambda>row. row \<noteq> (u, pk)) (favorites db)\<rparr>,
                 Inr HTTP_204_NO_CONTENT))
       \<and> ((u, pk) \<notin> set (carts db) \<longrightarrow>
            shopping_cart db request DELETE pk
              = (db, Inr (HTTP_400_BAD_REQUEST Not_in_cart)))
       \<and> ((u, pk) \<in> set (carts db) \<longrightarrow>
            shopping_cart db request DELETE pk
              = (db\<lparr>carts := filter (\<lambda>row. row \<noteq> (u, pk)) (carts db)\<rparr>,
                 Inr HTTP_204_NO_CONTENT))"
proof -
  from find_recipe [OF assms(2)] obtain r
    where r: "find (\<lambda>r. recipe_id r = pk) (recipes db) = Some r" "recipe_id r = pk" by blast
  from assms(1) have auth: "is_authenticated request"
    by (simp add: is_authenticated_def)
  have f: "favorite db request DELETE pk
           = delete_model_instance db request Favorite r Not_favorited"
    using r auth by (simp add: favorite_def)
  have c: "shopping_cart db request DELETE pk
           = delete_model_instance db request ShoppingCart r Not_in_cart"
    using r auth by (simp add: shopping_cart_def)
  show ?thesis
    unfolding f c delete_model_instance_cases [OF assms(1)] using r(2) by simp
qed

theorem delete_favorite_and_cart_witness:
  "favorite example_db (example_request (Some 1)) DELETE 10
     = (example_db\<lparr>favorites := []\<rparr>, Inr HTTP_204_NO_CONTENT)
   \<and> favorite example_db (example_request (Some 1)) DELETE 11
     = (example_db, Inr (HTTP_400_BAD_REQUEST Not_favorited))
   \<and> shopping_cart example_db (example_request (Some 1)) DELETE 10
     = (example_db\<lparr>carts := [(1, 11)]\<rparr>, Inr HTTP_204_NO_CONTENT)
   \<and> shopping_cart example_db (example_request (Some 1)) DELETE 12
     = (example_db, Inr (HTTP_400_BAD_REQUEST Not_in_cart))"
proof -
  have u: "request_user (example_request (Some 1)) = Some 1"
    by (simp add: example_request_def)
  have pks: "10 \<in> set (recipe_pks example_db)" "11 \<in> set (recipe_pks example_db)"
    "12 \<in> set (recipe_pks example_db)"
    by (simp_all add: recipe_pks_def example_db_def example_recipe_def)
  have fav: "favorites example_db = [(1, 10)]" and cart: "carts example_db = [(1, 10), (1, 11)]"
    by (simp_all add: example_db_def)
  from delete_favorite_and_cart [OF u pks(1)] delete_favorite_and_cart [OF u pks(2)]
    delete_favorite_and_cart [OF u pks(3)]
  show ?thesis
    by (simp add: fav cart)
qed

lemma atomic_Inr: "body db = (db', Inr v) \<Longrightarrow> atomic body db = (db', Inr v)"
  by (simp add: atomic_def)

lemma atomic_Inl: "body db = (db', Inl e) \<Longrightarrow> atomic body db = (db, Inl e)"
  by (simp add: atomic_def)

lemma Ingredient_get_missing:
  assumes "pk \<notin> set (map ingredient_id (ingredients db))"
  shows "Ingredient_get db pk = Inl DoesNotExist"
proof -
  from assms have "\<not> (\<exists>x. x \<in> set (ingredients db) \<and> ingredient_id x = pk)" by auto
  then have "find (\<lambda>i. ingredient_id i = pk) (ingredients db) = None"
    unfolding find_None_iff .
  then show ?thesis by (simp add: Ingredient_get_def)
qed

lemma Ingredient_get_found:
  assumes "pk \<in> set (map ingredient_id (ingredients db))"
  shows "\<exists>i. Ingredient_get db pk = Inr i \<and> ingredient_id i = pk"
proof -
  from assms have "\<exists>x. x \<in> set (ingredients db) \<and> ingredient_id x = pk" by auto
  then have "find (\<lambda>i. ingredient_id i = pk) (ingredients db) \<noteq> None"
    unfolding find_None_iff by blast
  then obtain i where i: "find (\<lambda>i. ingredient_id i = pk) (ingredients db) = Some i" by blast
  then have "ingredient_id i = pk" by (auto simp: find_Some_iff)
  with i show ?thesis by (simp add: Ingredient_get_def)
qed

text \<open>
  The comprehension succeeds exactly when every entry has both keys and an id that
  the ingredient table has; it then gives one row per entry.
\<close>

lemma new_rows_cases:
  "(\<forall>x \<in> set items. \<exists>pk amount. x = (Some pk, Some amount)
                        \<and> pk \<in> set (map ingredient_id (ingredients db)))
   \<and> new_rows db recipe items
       = Inr (map (\<lambda>x. \<lparr>ri_recipe = recipe, ri_ingredient = the (fst x),
                        ri_amount = the (snd x)\<rparr>) items)
   \<or> \<not> (\<forall>x \<in> set items. \<exists>pk amount. x = (Some pk, Some amount)
                        \<and> pk \<in> set (map ingredient_id (ingredients db)))
   \<and> (\<exists>e. new_rows db recipe items = Inl e)"
proof (induction items)
  case Nil
  show ?case by simp
next
  case (Cons x items)
  show ?case
  proof (cases "fst x")
    case None
    then have "\<not> (\<exists>pk amount. x = (Some pk, Some amount)
                   \<and> pk \<in> set (map ingredient_id (ingredients db)))" by auto
    with None show ?thesis by simp
  next
    case (Some pk)
    show ?thesis
    proof (cases "pk \<in> set (map ingredient_id (ingredients db))")
      case False
      then have "\<not> (\<exists>pk amount. x = (Some pk, Some amount)
                   \<and> pk \<in> set (map ingredient_id (ingredients db)))"
        using Some by auto
      with Some Ingredient_get_missing [OF False] show ?thesis by simp
    next
      case True
      from Ingredient_get_found [OF True] obtain i
        where i: "Ingredient_get db pk = Inr i" "ingredient_id i = pk" by blast
      show ?thesis
      proof (cases "snd x")
        case None
        then have "\<not> (\<exists>pk amount. x = (Some pk, Some amount)
                   \<and> pk \<in> set (map ingredient_id (ingredients db)))" by auto
        with Some i None show ?thesis by simp
      next
        case amount: (Some amount)
        from Some amount have x: "x = (Some pk, Some amount)"
          by (cases x) simp
        from Cons.IH show ?thesis
        proof
          assume "(\<forall>x \<in> set items. \<exists>pk amount. x = (Some pk, Some amount)
                        \<and> pk \<in> set (map ingredient_id (ingredients db)))
            \<and> new_rows db recipe items
               = Inr (map (\<lambda>x. \<lparr>ri_recipe = recipe, ri_ingredient = the (fst x),
                        ri_amount = the (snd x)\<rparr>) items)"
          with x True i show ?thesis by simp
        next
          assume "\<not> (\<forall>x \<in> set items. \<exists>pk amount. x = (Some pk, Some amount)
                        \<and> pk \<in> set (map ingredient_id (ingredients db)))
            \<and> (\<exists>e. new_rows db recipe items = Inl e)"
          with x i show ?thesis by auto
        qed
      qed
    qed
  qed
qed

lemma new_rows_DoesNotExist:
  assumes "\<forall>x \<in> set items. fst x \<noteq> None \<and> snd x \<noteq> None"
    and "\<exists>x \<in> set items. the (fst x) \<notin> set (map ingredient_id (ingredients db))"
  shows "new_rows db recipe items = Inl DoesNotExist"
  using assms
proof (induction items)
  case Nil
  then show ?case by simp
next
  case (Cons x items)
  from Cons.prems(1) obtain pk amount where x: "x = (Some pk, Some amount)"
    by (cases x) auto
  show ?case
  proof (cases "pk \<in> set (map ingredient_id (ingredients db))")
    case False
    with x Ingredient_get_missing [OF False] show ?thesis by simp
  next
    case True
    from Ingredient_get_found [OF True] obtain i
      where i: "Ingredient_get db pk = Inr i" by blast
    from Cons.prems x True
    have "\<forall>x \<in> set items. fst x \<noteq> None \<and> snd x \<noteq> None"
      "\<exists>x \<in> set items. the (fst x) \<notin> set (map ingredient_id (ingredients db))"
      by auto
    from Cons.IH [OF this] x i show ?thesis by simp
  qed
qed

lemma new_rows_ingredients:
  assumes "ingredients db' = ingredients db"
  shows "new_rows db' recipe items = new_rows db recipe items"
proof (induction items)
  case Nil
  show ?case by simp
next
  case (Cons x items)
  have "Ingredient_get db' pk = Ingredient_get db pk" for pk
    using assms by (simp add: Ingredient_get_def)
  with Cons show ?case by (simp split: option.split sum.split)
qed

lemma tags_set_fields:
  "ingredients (tags_set db recipe tags) = ingredients db"
  "recipe_ingredients (tags_set db recipe tags) = recipe_ingredients db"
  "recipes (tags_set db recipe tags) = recipes db"
  "subscriptions (tags_set db recipe tags) = subscriptions db"
  "favorites (tags_set db recipe tags) = favorites db"
  "carts (tags_set db recipe tags) = carts db"
  by (simp_all add: tags_set_def Let_def)

lemma tags_and_ingredients_set_new_rows:
  "tags_and_ingredients_set db recipe tags items
   = (case new_rows db recipe items of
        Inl e \<Rightarrow> (db, Inl e)
      | Inr rows \<Rightarrow>
          ((tags_set db recipe tags)\<lparr>recipe_ingredients := recipe_ingredients db @ rows\<rparr>,
           Inr ()))"
proof -
  have n: "new_rows (tags_set db recipe tags) recipe items = new_rows db recipe items"
    by (rule new_rows_ingredients) (simp add: tags_set_fields)
  show ?thesis
    unfolding tags_and_ingredients_set_def atomic_def Let_def n
    by (cases "new_rows db recipe items") (simp_all add: tags_set_fields)
qed

lemma tags_set_tags:
  "set (map snd (filter (\<lambda>row. fst row = recipe) (recipe_tags (tags_set db recipe tags))))
   = set tags"
proof -
  have "snd ` {row \<in> set (recipe_tags db). (fst row = recipe \<longrightarrow> snd row \<in> set tags)
                 \<and> fst row = recipe}
        \<union> {t \<in> set tags. t \<notin> snd ` {row \<in> set (recipe_tags db). fst row = recipe}}
        = set tags"
    by force
  moreover have "snd ` {x \<in> Pair recipe ` {t \<in> set tags.
                   t \<notin> snd ` {row \<in> set (recipe_tags db). fst row = recipe}}. fst x = recipe}
        = {t \<in> set tags. t \<notin> snd ` {row \<in> set (recipe_tags db). fst row = recipe}}"
    by force
  ultimately show ?thesis
    by (simp add: tags_set_def Let_def image_Un Collect_disj_eq Collect_conj_eq)
qed

lemma save_fields:
  "recipe_ingredients (save db instance) = recipe_ingredients db"
  "recipe_tags (save db instance) = recipe_tags db"
  "subscriptions (save db instance) = subscriptions db"
  "favorites (save db instance) = favorites db"
  "carts (save db instance) = carts db"
  by (simp_all add: save_def)

lemma attached_rows_deleted:
  assumes "\<forall>ri \<in> set (recipe_ingredients db).
             ri_ingredient ri \<in> set (map ingredient_id (ingredients db))"
  shows "filter (\<lambda>ri. ri_recipe ri = recipe_id instance)
           (filter (\<lambda>ri. \<not> (ri_recipe ri = recipe_id instance
                             \<and> ri_ingredient ri
                                 \<in> set (map ingredient_id (instance_ingredients db instance))))
              (recipe_ingredients db)) = []"
proof -
  have "ri_ingredient ri \<in> set (map ingredient_id (instance_ingredients db instance))"
    if ri: "ri \<in> set (recipe_ingredients db)" "ri_recipe ri = recipe_id instance" for ri
  proof -
    from assms ri(1) obtain i where i: "i \<in> set (ingredients db)"
      "ingredient_id i = ri_ingredient ri" by auto
    from ri have "ri_ingredient ri
        \<in> set (map ri_ingredient (filter (\<lambda>ri. ri_recipe ri = recipe_id instance)
                                     (recipe_ingredients db)))"
      by auto
    with i have "i \<in> set (instance_ingredients db instance)"
      by (simp add: instance_ingredients_def)
    with i(2) show ?thesis by force
  qed
  then show ?thesis
    by (auto simp: filter_empty_conv)
qed

lemma update_success:
  assumes "update db instance data = (db', Inr v)"
  shows "\<exists>tags items rows db1.
           data_tags data = Some tags \<and> data_ingredients data = Some items
         \<and> db1 = db\<lparr>recipe_ingredients :=
                       filter (\<lambda>ri. \<not> (ri_recipe ri = recipe_id instance
                                        \<and> ri_ingredient ri
                                            \<in> set (map ingredient_id
                                                     (instance_ingredients db instance))))
                         (recipe_ingredients db)\<rparr>
         \<and> new_rows db1 (recipe_id instance) items = Inr rows
         \<and> recipe_ingredients db' = recipe_ingredients db1 @ rows
         \<and> recipe_tags db' = recipe_tags (tags_set db1 (recipe_id instance) tags)"
proof (cases "data_tags data")
  case None
  with assms show ?thesis by (simp add: update_def atomic_def Let_def)
next
  case tags: (Some tags)
  show ?thesis
  proof (cases "data_ingredients data")
    case None
    with assms tags show ?thesis by (simp add: update_def atomic_def Let_def)
  next
    case items: (Some items)
    let ?db1 = "db\<lparr>recipe_ingredients :=
                       filter (\<lambda>ri. \<not> (ri_recipe ri = recipe_id instance
                                        \<and> ri_ingredient ri
                                            \<in> set (map ingredient_id
                                                     (instance_ingredients db instance))))
                         (recipe_ingredients db)\<rparr>"
    show ?thesis
    proof (cases "new_rows ?db1 (recipe_id instance) items")
      case (Inl e)
      then have "tags_and_ingredients_set ?db1 (recipe_id instance) tags items
                 = (?db1, Inl e)"
        unfolding tags_and_ingredients_set_new_rows by simp
      with assms tags items show ?thesis
        by (simp add: update_def atomic_def Let_def)
    next
      case (Inr rows)
      then have t: "tags_and_ingredients_set ?db1 (recipe_id instance) tags items
                 = ((tags_set ?db1 (recipe_id instance) tags)
                      \<lparr>recipe_ingredients := recipe_ingredients ?db1 @ rows\<rparr>,
                    Inr ())"
        unfolding tags_and_ingredients_set_new_rows by simp
      from assms have db': "db' = fst (update db instance data)" by simp
      have "recipe_ingredients (fst (update db instance data))
            = recipe_ingredients ?db1 @ rows"
        using tags items t by (simp add: update_def atomic_def Let_def save_fields)
      moreover have "recipe_tags (fst (update db instance data))
                     = recipe_tags (tags_set ?db1 (recipe_id instance) tags)"
        using tags items t by (simp add: update_def atomic_def Let_def save_fields)
      ultimately have "recipe_ingredients db' = recipe_ingredients ?db1 @ rows"
        and "recipe_tags db' = recipe_tags (tags_set ?db1 (recipe_id instance) tags)"
        unfolding db' by simp_all
      with tags items Inr show ?thesis by blast
    qed
  qed
qed

text \<open>
  C3. After a successful update of a recipe, in a database whose \<^verbatim>\<open>RecipeIngredient\<close> rows
  all point to existing ingredients, the rows attached to the recipe are exactly the
  entries (ingredient, amount) of the submitted ingredient list, in its order (no row
  attached before survives), and the tags of the recipe are exactly the submitted tags.
\<close>

theorem update_replaces_ingredients_and_tags:
  assumes "update db instance data = (db', Inr v)"
    and "\<forall>ri \<in> set (recipe_ingredients db).
           ri_ingredient ri \<in> set (map ingredient_id (ingredients db))"
  shows "\<exists>tags items.
           data_tags data = Some tags \<and> data_ingredients data = Some items
         \<and> map (\<lambda>ri. (Some (ri_ingredient ri), Some (ri_amount ri)))
               (filter (\<lambda>ri. ri_recipe ri = recipe_id instance) (recipe_ingredients db'))
             = items
         \<and> set (map snd (filter (\<lambda>row. fst row = recipe_id instance) (recipe_tags db')))
             = set tags"
proof -
  from update_success [OF assms(1)] obtain tags items rows db1 where
    d: "data_tags data = Some tags" "data_ingredients data = Some items"
    and db1: "db1 = db\<lparr>recipe_ingredients :=
                       filter (\<lambda>ri. \<not> (ri_recipe ri = recipe_id instance
                                        \<and> ri_ingredient ri
                                            \<in> set (map ingredient_id
                                                     (instance_ingredients db instance))))
                         (recipe_ingredients db)\<rparr>"
    and nr: "new_rows db1 (recipe_id instance) items = Inr rows"
    and ri: "recipe_ingredients db' = recipe_ingredients db1 @ rows"
    and rt: "recipe_tags db' = recipe_tags (tags_set db1 (recipe_id instance) tags)"
    by blast
  from new_rows_cases [of items db1 "recipe_id instance"] nr
  have complete: "\<forall>x \<in> set items. \<exists>pk amount. x = (Some pk, Some amount)"
    and rows: "rows = map (\<lambda>x. \<lparr>ri_recipe = recipe_id instance, ri_ingredient = the (fst x),
                                 ri_amount = the (snd x)\<rparr>) items"
    by auto
  from db1 attached_rows_deleted [OF assms(2)]
  have old: "filter (\<lambda>ri. ri_recipe ri = recipe_id instance) (recipe_ingredients db1) = []"
    by simp
  have new: "map (\<lambda>ri. (Some (ri_ingredient ri), Some (ri_amount ri)))
               (filter (\<lambda>ri. ri_recipe ri = recipe_id instance) rows) = items"
    unfolding rows using complete by (induction items) auto
  have "map (\<lambda>ri. (Some (ri_ingredient ri), Some (ri_amount ri)))
               (filter (\<lambda>ri. ri_recipe ri = recipe_id instance) (recipe_ingredients db'))
        = items"
    unfolding ri filter_append old using new by simp
  moreover have "set (map snd (filter (\<lambda>row. fst row = recipe_id instance) (recipe_tags db')))
        = set tags"
    unfolding rt by (rule tags_set_tags)
  ultimately show ?thesis using d by blast
qed

lemma update_succeeds:
  assumes "data_tags data = Some tags" and "data_ingredients data = Some items"
    and "\<forall>x \<in> set items. \<exists>pk amount. x = (Some pk, Some amount)
                        \<and> pk \<in> set (map ingredient_id (ingredients db))"
  shows "\<exists>db' v. update db instance data = (db', Inr v)"
proof -
  let ?db1 = "db\<lparr>recipe_ingredients :=
                       filter (\<lambda>ri. \<not> (ri_recipe ri = recipe_id instance
                                        \<and> ri_ingredient ri
                                            \<in> set (map ingredient_id
                                                     (instance_ingredients db instance))))
                         (recipe_ingredients db)\<rparr>"
  from assms(3) new_rows_cases [of items ?db1 "recipe_id instance"]
  obtain rows where "new_rows ?db1 (recipe_id instance) items = Inr rows"
    by auto
  then show ?thesis
    using assms(1,2)
    by (simp add: update_def atomic_def Let_def tags_and_ingredients_set_new_rows)
qed

theorem update_replaces_ingredients_and_tags_witness:
  "map (\<lambda>ri. (Some (ri_ingredient ri), Some (ri_amount ri)))
     (filter (\<lambda>ri. ri_recipe ri = 10)
        (recipe_ingredients (fst (update example_db (example_recipe 10 2) example_data))))
   = [(Some 2, Some 30), (Some 3, Some 4)]
   \<and> set (map snd (filter (\<lambda>row. fst row = 10)
        (recipe_tags (fst (update example_db (example_recipe 10 2) example_data))))) = {2}"
proof -
  have fk: "\<forall>ri \<in> set (recipe_ingredients example_db).
             ri_ingredient ri \<in> set (map ingredient_id (ingredients example_db))"
    by (simp add: example_db_def)
  have d: "data_tags example_data = Some [2, 2]"
    "data_ingredients example_data = Some [(Some 2, Some 30), (Some 3, Some 4)]"
    by (simp_all add: example_data_def)
  have "\<forall>x \<in> set [(Some 2, Some 30), (Some 3, Some 4)].
          \<exists>pk amount. x = (Some pk, Some amount)
            \<and> pk \<in> set (map ingredient_id (ingredients example_db))"
    by (simp add: example_db_def)
  from update_succeeds [OF d this] obtain db' v
    where u: "update example_db (example_recipe 10 2) example_data = (db', Inr v)" by blast
  have r: "recipe_id (example_recipe 10 2) = 10" by (simp add: example_recipe_def)
  from update_replaces_ingredients_and_tags [OF u fk] show ?thesis
    unfolding u r d by simp
qed

lemma tags_and_ingredients_set_raises:
  assumes "new_rows db recipe items = Inl e"
  shows "tags_and_ingredients_set (db\<lparr>recipes := rs\<rparr>) recipe tags items
         = (db\<lparr>recipes := rs\<rparr>, Inl e)"
proof -
  have "new_rows (db\<lparr>recipes := rs\<rparr>) recipe items = new_rows db recipe items"
    by (rule new_rows_ingredients) simp
  with assms show ?thesis
    unfolding tags_and_ingredients_set_new_rows by simp
qed

lemma create_raises:
  assumes "data_ingredients data = Some items"
    and "new_rows db (new_pk (recipe_pks db)) items = Inl e"
  shows "create db request data
         = (db, Inl (if data_tags data = None then KeyError
                     else if request_user request = None then ValueError
                     else if data_cooking_time data = None then IntegrityError
                     else e))"
  using assms(1) tags_and_ingredients_set_raises [OF assms(2)]
  by (simp add: create_def atomic_def Let_def split: option.split)

text \<open>
  C8. When the submitted ingredient list holds an id that no \<^verbatim>\<open>Ingredient\<close> row has,
  \<open>create\<close> raises and the database is the one from before the call: neither the new
  recipe row nor any \<^verbatim>\<open>RecipeIngredient\<close> row is kept. For the data of an authenticated
  create request that has passed validation (in a create request every entry has its
  amount) the exception is \<^verbatim>\<open>DoesNotExist\<close>.
\<close>

theorem create_is_atomic:
  assumes "data_ingredients data = Some items" and "x \<in> set items"
    and "fst x = Some pk" and "pk \<notin> set (map ingredient_id (ingredients db))"
  shows "(\<exists>e. create db request data = (db, Inl e))
       \<and> (validate data = Inr data \<and> data_image data \<noteq> None \<and> request_user request \<noteq> None
            \<and> (\<forall>y \<in> set items. snd y \<noteq> None)
            \<longrightarrow> create db request data = (db, Inl DoesNotExist))"
proof -
  from assms(2,3,4)
  have "\<not> (\<forall>x \<in> set items. \<exists>pk amount. x = (Some pk, Some amount)
                        \<and> pk \<in> set (map ingredient_id (ingredients db)))"
    by force
  with new_rows_cases [of items db "new_pk (recipe_pks db)"] obtain e
    where e: "new_rows db (new_pk (recipe_pks db)) items = Inl e" by blast
  have 1: "\<exists>e. create db request data = (db, Inl e)"
    unfolding create_raises [OF assms(1) e] by simp
  have 2: "create db request data = (db, Inl DoesNotExist)"
    if v: "validate data = Inr data" and u: "request_user request \<noteq> None"
      and a: "\<forall>y \<in> set items. snd y \<noteq> None"
  proof -
    from validate_Inr [OF v] have i: "\<not> invalid_recipe_data data"
      and w: "\<not> entry_without_id data" by simp_all
    from i have p: "data_tags data \<noteq> None" "data_cooking_time data \<noteq> None"
      by (simp_all add: invalid_recipe_data_def)
    from w assms(1) have "None \<notin> set (map fst items)"
      by (simp add: entry_without_id_def)
    then have "\<forall>y \<in> set items. fst y \<noteq> None" by force
    with a have c: "\<forall>y \<in> set items. fst y \<noteq> None \<and> snd y \<noteq> None" by simp
    from assms(2,3,4)
    have "\<exists>y \<in> set items. the (fst y) \<notin> set (map ingredient_id (ingredients db))"
      by force
    from new_rows_DoesNotExist [OF c this] e have "e = DoesNotExist" by simp
    with p u show ?thesis
      unfolding create_raises [OF assms(1) e] by simp
  qed
  from 1 2 show ?thesis by blast
qed

theorem create_is_atomic_witness:
  "validate (example_data\<lparr>data_ingredients := Some [(Some 2, Some 30), (Some 9, Some 1)]\<rparr>)
     = Inr (example_data\<lparr>data_ingredients := Some [(Some 2, Some 30), (Some 9, Some 1)]\<rparr>)
   \<and> create example_db (example_request (Some 3))
        (example_data\<lparr>data_ingredients := Some [(Some 2, Some 30), (Some 9, Some 1)]\<rparr>)
     = (example_db, Inl DoesNotExist)"
proof -
  let ?data = "example_data\<lparr>data_ingredients := Some [(Some 2, Some 30), (Some 9, Some 1)]\<rparr>"
  have i: "data_ingredients ?data = Some [(Some 2, Some 30), (Some 9, Some 1)]" by simp
  have x: "(Some 9, Some 1) \<in> set [(Some 2, Some 30), (Some 9, Some (1::int))]" by simp
  have f: "fst (Some (9::int), Some (1::int)) = Some 9" by simp
  have m: "9 \<notin> set (map ingredient_id (ingredients example_db))"
    by (simp add: example_db_def)
  have v: "validate ?data = Inr ?data"
    by (simp add: validate_def not_get_def example_data_def)
  have "data_image ?data \<noteq> None" "request_user (example_request (Some 3)) \<noteq> None"
    "\<forall>y \<in> set [(Some 2, Some 30), (Some 9, Some (1::int))]. snd y \<noteq> None"
    by (simp_all add: example_data_def example_request_def)
  with v create_is_atomic [OF i x f m, of "example_request (Some 3)"] show ?thesis
    by simp
qed

lemma tags_and_ingredients_set_fields:
  "subscriptions (fst (tags_and_ingredients_set db recipe tags items)) = subscriptions db
   \<and> favorites (fst (tags_and_ingredients_set db recipe tags items)) = favorites db
   \<and> carts (fst (tags_and_ingredients_set db recipe tags items)) = carts db"
  unfolding tags_and_ingredients_set_new_rows
  by (cases "new_rows db recipe items") (simp_all add: tags_set_fields)

lemma create_fields:
  "subscriptions (fst (create db request data)) = subscriptions db
   \<and> favorites (fst (create db request data)) = favorites db
   \<and> carts (fst (create db request data)) = carts db"
proof (cases "data_tags data")
  case None
  then show ?thesis by (simp add: create_def atomic_def)
next
  case tags: (Some tags)
  show ?thesis
  proof (cases "data_ingredients data")
    case None
    with tags show ?thesis by (simp add: create_def atomic_def)
  next
    case items: (Some items)
    show ?thesis
    proof (cases "request_user request")
      case None
      with tags items show ?thesis by (simp add: create_def atomic_def)
    next
      case user: (Some author)
      show ?thesis
      proof (cases "data_cooking_time data")
        case None
        with tags items user show ?thesis by (simp add: create_def atomic_def)
      next
        case time: (Some cooking_time)
        define recipe where "recipe =
            \<lparr>recipe_id = new_pk (recipe_pks db), recipe_author = author,
             recipe_name = (case data_name data of None \<Rightarrow> [] | Some v \<Rightarrow> v),
             recipe_image = (case data_image data of None \<Rightarrow> [] | Some v \<Rightarrow> v),
             recipe_text = (case data_text data of None \<Rightarrow> [] | Some v \<Rightarrow> v),
             recipe_cooking_time = cooking_time\<rparr>"
        define db1 where "db1 = db\<lparr>recipes := recipes db @ [recipe]\<rparr>"
        obtain db2 res
          where t: "tags_and_ingredients_set db1 (recipe_id recipe) tags items = (db2, res)"
          by (cases "tags_and_ingredients_set db1 (recipe_id recipe) tags items") auto
        from tags_and_ingredients_set_fields [of db1 "recipe_id recipe" tags items] t
        have f: "subscriptions db2 = subscriptions db \<and> favorites db2 = favorites db
                 \<and> carts db2 = carts db"
          by (simp add: db1_def)
        have rid: "recipe_id recipe = new_pk (recipe_pks db)"
          by (simp add: recipe_def)
        have "fst (create db request data) = db \<or> fst (create db request data) = db2"
          using tags items user time t [unfolded rid]
          by (cases res)
             (simp_all add: create_def atomic_def Let_def recipe_def [symmetric]
               db1_def [symmetric])
        with f show ?thesis by auto
      qed
    qed
  qed
qed

lemma update_fields:
  "subscriptions (fst (update db instance data)) = subscriptions db
   \<and> favorites (fst (update db instance data)) = favorites db
   \<and> carts (fst (update db instance data)) = carts db"
proof (cases "data_tags data")
  case None
  then show ?thesis by (simp add: update_def atomic_def Let_def)
next
  case tags: (Some tags)
  show ?thesis
  proof (cases "data_ingredients data")
    case None
    with tags show ?thesis by (simp add: update_def atomic_def Let_def)
  next
    case items: (Some items)
    let ?db1 = "db\<lparr>recipe_ingredients :=
                       filter (\<lambda>ri. \<not> (ri_recipe ri = recipe_id instance
                                        \<and> ri_ingredient ri
                                            \<in> set (map ingredient_id
                                                     (instance_ingredients db instance))))
                         (recipe_ingredients db)\<rparr>"
    obtain db2 res
      where t: "tags_and_ingredients_set ?db1 (recipe_id instance) tags items = (db2, res)"
      by (cases "tags_and_ingredients_set ?db1 (recipe_id instance) tags items") auto
    from tags_and_ingredients_set_fields [of ?db1 "recipe_id instance" tags items] t
    have f: "subscriptions db2 = subscriptions db \<and> favorites db2 = favorites db
             \<and> carts db2 = carts db"
      by simp
    show ?thesis
      using tags items t f
      by (cases res) (simp_all add: update_def atomic_def Let_def save_fields)
  qed
qed

lemma recipe_create_unique:
  "unique_together (fst (recipe_create db request data)) = unique_together db"
proof (cases "validate data")
  case (Inl e)
  then show ?thesis by (simp add: recipe_create_def)
next
  case (Inr obj)
  then have "fst (recipe_create db request data) = fst (create db request obj)"
    by (simp add: recipe_create_def)
  with create_fields [of db request obj] show ?thesis
    by (simp add: unique_together_def)
qed

lemma recipe_update_unique:
  "unique_together (fst (recipe_update db pk data)) = unique_together db"
proof (cases "find (\<lambda>r. recipe_id r = pk) (recipes db)")
  case None
  then show ?thesis by (simp add: recipe_update_def)
next
  case (Some r)
  show ?thesis
  proof (cases "validate data")
    case (Inl e)
    with Some show ?thesis by (simp add: recipe_update_def)
  next
    case (Inr obj)
    with Some have "fst (recipe_update db pk data) = fst (update db r obj)"
      by (simp add: recipe_update_def)
    with update_fields [of db r obj] show ?thesis
      by (simp add: unique_together_def)
  qed
qed

lemma recipe_destroy_unique:
  "unique_together db \<Longrightarrow> unique_together (fst (recipe_destroy db pk))"
  by (cases "find (\<lambda>r. recipe_id r = pk) (recipes db)")
     (simp_all add: recipe_destroy_def destroy_def unique_together_def)

lemma UserSubscribeSerializer_valid:
  assumes "UserSubscribeSerializer_is_valid db request data = Inr d"
  shows "d = data \<and> data \<notin> set (subscriptions db)"
proof -
  have "exists (filter (\<lambda>row. fst row = fst data \<and> snd row = snd data) (subscriptions db))
        = (data \<in> set (subscriptions db))"
    using exists_pair [of "fst data" "snd data" "subscriptions db"] by simp
  with assms show ?thesis
    by (simp add: UserSubscribeSerializer_is_valid_def split: if_splits)
qed

lemma UserSubscribeSerializer_duplicate:
  assumes "data \<in> set (subscriptions db)"
  shows "\<exists>m. UserSubscribeSerializer_is_valid db request data = Inl (ValidationError m)"
proof -
  have "exists (filter (\<lambda>row. fst row = fst data \<and> snd row = snd data) (subscriptions db))"
    using exists_pair [of "fst data" "snd data" "subscriptions db"] assms by simp
  then show ?thesis
    by (simp add: UserSubscribeSerializer_is_valid_def)
qed

lemma subscribe_unique:
  assumes "unique_together db"
  shows "unique_together (fst (subscribe db request meth pk))"
proof (cases "request_user request")
  case None
  with assms show ?thesis by (simp add: subscribe_def)
next
  case user: (Some u)
  show ?thesis
  proof (cases "find (\<lambda>a. user_id a = pk) (users db)")
    case None
    with user assms show ?thesis by (simp add: subscribe_def)
  next
    case author: (Some author)
    show ?thesis
    proof (cases meth)
      case POST
      show ?thesis
      proof (cases "UserSubscribeSerializer_is_valid db request (u, user_id author)")
        case (Inl e)
        with user author POST assms show ?thesis by (simp add: subscribe_def)
      next
        case (Inr d)
        from UserSubscribeSerializer_valid [OF Inr]
        have d: "d = (u, user_id author)" "(u, user_id author) \<notin> set (subscriptions db)"
          by simp_all
        let ?saved = "db\<lparr>subscriptions := subscriptions db @ [(u, user_id author)]\<rparr>"
        have "fst (subscribe db request meth pk) = ?saved"
          using user author POST Inr d(1)
          by (cases "UserSubscribeRepresentSerializer ?saved (Some request) author")
             (simp_all add: subscribe_def Let_def)
        with assms d(2) show ?thesis by (simp add: unique_together_def)
      qed
    next
      case DELETE
      with user author assms show ?thesis
        by (simp add: subscribe_def Let_def unique_together_def)
    qed
  qed
qed

lemma serializer_valid:
  assumes "serializer_is_valid serializer db (ru, pk) = Inr d"
  shows "d \<notin> set (objects (serializer_model serializer) db)"
proof (cases ru)
  case None
  with assms show ?thesis by (simp add: serializer_is_valid_def)
next
  case (Some u)
  with assms show ?thesis
    by (auto simp: serializer_is_valid_def exists_pair split: if_splits)
qed

lemma serializer_duplicate:
  assumes "(u, pk) \<in> set (objects (serializer_model serializer) db)"
  shows "\<exists>m. serializer_is_valid serializer db (Some u, pk) = Inl (ValidationError m)"
  using assms by (simp add: serializer_is_valid_def exists_pair)

lemma objects_update_unique:
  assumes "unique_together db" and "distinct rows"
  shows "unique_together (objects_update model rows db)"
  using assms by (cases model) (simp_all add: unique_together_def)

lemma objects_distinct:
  "unique_together db \<Longrightarrow> distinct (objects model db)"
  by (cases model) (simp_all add: unique_together_def)

lemma create_model_instance_unique:
  assumes "unique_together db"
  shows "unique_together (fst (create_model_instance db request instance serializer))"
proof (cases "serializer_is_valid serializer db (request_user request, recipe_id instance)")
  case (Inl e)
  with assms show ?thesis by (simp add: create_model_instance_def)
next
  case (Inr d)
  from serializer_valid [OF Inr] objects_distinct [OF assms]
  have "distinct (objects (serializer_model serializer) db @ [d])" by simp
  from objects_update_unique [OF assms this] Inr show ?thesis
    by (simp add: create_model_instance_def)
qed

lemma delete_model_instance_unique:
  assumes "unique_together db"
  shows "unique_together (fst (delete_model_instance db request model instance msg))"
proof -
  have "distinct (filter P (objects model db))" for P
    using objects_distinct [OF assms] by simp
  from objects_update_unique [OF assms this] assms show ?thesis
    by (cases "request_user request") (simp_all add: delete_model_instance_def)
qed

lemma favorite_unique:
  assumes "unique_together db"
  shows "unique_together (fst (favorite db request meth pk))"
proof (cases "find (\<lambda>r. recipe_id r = pk) (recipes db)")
  case None
  with assms show ?thesis by (simp add: favorite_def)
next
  case (Some r)
  with assms create_model_instance_unique [OF assms] delete_model_instance_unique [OF assms]
  show ?thesis by (cases meth) (simp_all add: favorite_def)
qed

lemma shopping_cart_unique:
  assumes "unique_together db"
  shows "unique_together (fst (shopping_cart db request meth pk))"
proof (cases "find (\<lambda>r. recipe_id r = pk) (recipes db)")
  case None
  with assms show ?thesis by (simp add: shopping_cart_def)
next
  case (Some r)
  with assms create_model_instance_unique [OF assms] delete_model_instance_unique [OF assms]
  show ?thesis by (cases meth) (simp_all add: shopping_cart_def)
qed

lemma perform_unique:
  assumes "unique_together db"
  shows "unique_together (perform db request operation)"
proof (cases operation)
  case (Subscribe m pk)
  with subscribe_unique [OF assms] show ?thesis by simp
next
  case (Favorite_action m pk)
  with favorite_unique [OF assms] show ?thesis by simp
next
  case (Shopping_cart_action m pk)
  with shopping_cart_unique [OF assms] show ?thesis by simp
next
  case (Recipe_create data)
  with assms show ?thesis by (simp add: recipe_create_unique)
next
  case (Recipe_update pk data)
  with assms show ?thesis by (simp add: recipe_update_unique)
next
  case (Recipe_destroy pk)
  with recipe_destroy_unique [OF assms] show ?thesis by simp
qed

lemma subscribe_duplicate:
  assumes "request_user request = Some u" and "a \<in> set (user_pks db)"
    and "(u, a) \<in> set (subscriptions db)"
  shows "\<exists>m. subscribe db request POST a = (db, Inl (ValidationError m))"
proof -
  from find_user [OF assms(2)] obtain author
    where a: "find (\<lambda>x. user_id x = a) (users db) = Some author" "user_id author = a"
    by blast
  from UserSubscribeSerializer_duplicate [OF assms(3)] obtain m
    where "UserSubscribeSerializer_is_valid db request (u, a) = Inl (ValidationError m)"
    by blast
  with a assms(1) have "subscribe db request POST a = (db, Inl (ValidationError m))"
    by (simp add: subscribe_def)
  then show ?thesis ..
qed

lemma create_model_instance_duplicate:
  assumes "request_user request = Some u"
    and "(u, recipe_id r) \<in> set (objects (serializer_model serializer) db)"
  shows "\<exists>m. create_model_instance db request r serializer = (db, Inl (ValidationError m))"
proof -
  from serializer_duplicate [OF assms(2)] obtain m
    where "serializer_is_valid serializer db (Some u, recipe_id r) = Inl (ValidationError m)"
    by blast
  with assms(1) have "create_model_instance db request r serializer
      = (db, Inl (ValidationError m))"
    by (simp add: create_model_instance_def)
  then show ?thesis ..
qed

text \<open>
  C2. Every writing operation (subscribe and unsubscribe, adding to and removing from
  the favorites and the shopping cart, creating, updating and deleting a recipe) keeps
  at most one \<^verbatim>\<open>Subscription\<close> row per pair (user, author), at most one \<^verbatim>\<open>Favorite\<close> row
  and at most one \<^verbatim>\<open>ShoppingCart\<close> row per pair (user, recipe); and the attempt to create
  a row for a pair that has one is rejected with a validation error and leaves the
  database as it was.
\<close>

theorem unique_together_preserved:
  "(unique_together db \<longrightarrow> unique_together (perform db request operation))
   \<and> (request_user request = Some u \<and> a \<in> set (user_pks db)
        \<and> (u, a) \<in> set (subscriptions db)
      \<longrightarrow> (\<exists>m. subscribe db request POST a = (db, Inl (ValidationError m))))
   \<and> (request_user request = Some u \<and> pk \<in> set (recipe_pks db)
        \<and> (u, pk) \<in> set (favorites db)
      \<longrightarrow> (\<exists>m. favorite db request POST pk = (db, Inl (ValidationError m))))
   \<and> (request_user request = Some u \<and> pk \<in> set (recipe_pks db)
        \<and> (u, pk) \<in> set (carts db)
      \<longrightarrow> (\<exists>m. shopping_cart db request POST pk = (db, Inl (ValidationError m))))"
proof (intro conjI impI)
  assume "unique_together db"
  then show "unique_together (perform db request operation)" by (rule perform_unique)
next
  assume "request_user request = Some u \<and> a \<in> set (user_pks db)
          \<and> (u, a) \<in> set (subscriptions db)"
  then show "\<exists>m. subscribe db request POST a = (db, Inl (ValidationError m))"
    using subscribe_duplicate by blast
next
  assume h: "request_user request = Some u \<and> pk \<in> set (recipe_pks db)
          \<and> (u, pk) \<in> set (favorites db)"
  then obtain r where r: "find (\<lambda>r. recipe_id r = pk) (recipes db) = Some r"
    "recipe_id r = pk" using find_recipe by blast
  from h r(2) have "(u, recipe_id r) \<in> set (objects (serializer_model FavoriteSerializer) db)"
    by simp
  from create_model_instance_duplicate [OF _ this, of request] h obtain m
    where "create_model_instance db request r FavoriteSerializer
           = (db, Inl (ValidationError m))" by blast
  with h r(1) have "favorite db request POST pk = (db, Inl (ValidationError m))"
    by (simp add: favorite_def is_authenticated_def)
  then show "\<exists>m. favorite db request POST pk = (db, Inl (ValidationError m))" ..
next
  assume h: "request_user request = Some u \<and> pk \<in> set (recipe_pks db)
          \<and> (u, pk) \<in> set (carts db)"
  then obtain r where r: "find (\<lambda>r. recipe_id r = pk) (recipes db) = Some r"
    "recipe_id r = pk" using find_recipe by blast
  from h r(2)
  have "(u, recipe_id r) \<in> set (objects (serializer_model ShoppingCartSerializer) db)"
    by simp
  from create_model_instance_duplicate [OF _ this, of request] h obtain m
    where "create_model_instance db request r ShoppingCartSerializer
           = (db, Inl (ValidationError m))" by blast
  with h r(1) have "shopping_cart db request POST pk = (db, Inl (ValidationError m))"
    by (simp add: shopping_cart_def is_authenticated_def)
  then show "\<exists>m. shopping_cart db request POST pk = (db, Inl (ValidationError m))" ..
qed

theorem unique_together_preserved_witness:
  "unique_together example_db
   \<and> unique_together (perform example_db (example_request (Some 1)) (Favorite_action POST 11))
   \<and> (\<exists>m. subscribe example_db (example_request (Some 1)) POST 2
            = (example_db, Inl (ValidationError m)))
   \<and> (\<exists>m. favorite example_db (example_request (Some 1)) POST 10
            = (example_db, Inl (ValidationError m)))
   \<and> (\<exists>m. shopping_cart example_db (example_request (Some 1)) POST 10
            = (example_db, Inl (ValidationError m)))"
proof -
  have u: "unique_together example_db"
    by (simp add: unique_together_def example_db_def)
  have r: "request_user (example_request (Some 1)) = Some 1"
    by (simp add: example_request_def)
  have p: "2 \<in> set (user_pks example_db)" "10 \<in> set (recipe_pks example_db)"
    by (simp_all add: user_pks_def recipe_pks_def example_db_def example_user_def
        example_recipe_def)
  have m: "(1, 2) \<in> set (subscriptions example_db)" "(1, 10) \<in> set (favorites example_db)"
    "(1, 10) \<in> set (carts example_db)"
    by (simp_all add: example_db_def)
  from unique_together_preserved [of example_db "example_request (Some 1)"
      "Favorite_action POST 11" 1 2 10] u r p m
  show ?thesis by blast
qed

lemma filter_eq_distinct:
  "distinct xs \<Longrightarrow> filter (\<lambda>y. y = x) xs = (if x \<in> set xs then [x] else [])"
proof (induction xs)
  case Nil
  show ?case by simp
next
  case (Cons y ys)
  then show ?case by (auto simp: filter_empty_conv)
qed

lemma cart_rows_filter:
  assumes "distinct (carts db)" and "request_user request = Some u"
  shows "cart_rows db request
         = filter (\<lambda>ri. (u, ri_recipe ri) \<in> set (carts db)) (recipe_ingredients db)"
proof -
  have one: "map (\<lambda>cart. ri)
               (filter (\<lambda>cart. Some (fst cart) = request_user request \<and> snd cart = ri_recipe ri)
                  (carts db))
             = (if (u, ri_recipe ri) \<in> set (carts db) then [ri] else [])"
    for ri :: recipe_ingredient
  proof -
    have "(\<lambda>cart. Some (fst cart) = request_user request \<and> snd cart = ri_recipe ri)
          = (\<lambda>cart. cart = (u, ri_recipe ri))"
      using assms(2) by auto
    then show ?thesis
      using filter_eq_distinct [OF assms(1), of "(u, ri_recipe ri)"] by simp
  qed
  have "concat (map (\<lambda>ri. if P ri then [ri] else []) rows) = filter P rows"
    for P and rows :: "recipe_ingredient list"
    by (induction rows) simp_all
  then show ?thesis
    unfolding cart_rows_def one by simp
qed

lemma ingredient_key_iff:
  "(ingredient_key db ri = Some (name, unit))
   = (\<exists>i. find (\<lambda>i. ingredient_id i = ri_ingredient ri) (ingredients db) = Some i
          \<and> ingredient_name i = name \<and> ingredient_measurement_unit i = unit)"
  by (cases "find (\<lambda>i. ingredient_id i = ri_ingredient ri) (ingredients db)")
     (simp_all add: ingredient_key_def)

lemma values_rows_keys:
  "set (map fst (values_rows db rows))
   = {key. \<exists>ri \<in> set rows. ingredient_key db ri = Some key}"
proof (induction rows)
  case Nil
  show ?case by (simp add: values_rows_def)
next
  case (Cons ri rows)
  have "values_rows db (ri # rows)
        = (case ingredient_key db ri of None \<Rightarrow> [] | Some key \<Rightarrow> [(key, ri_amount ri)])
          @ values_rows db rows"
    by (simp add: values_rows_def)
  with Cons show ?case
    by (cases "ingredient_key db ri") auto
qed

lemma values_rows_sum:
  "sum_list (map snd (filter (\<lambda>row. fst row = key) (values_rows db rows)))
   = sum_list (map ri_amount (filter (\<lambda>ri. ingredient_key db ri = Some key) rows))"
proof (induction rows)
  case Nil
  show ?case by (simp add: values_rows_def)
next
  case (Cons ri rows)
  have "values_rows db (ri # rows)
        = (case ingredient_key db ri of None \<Rightarrow> [] | Some key \<Rightarrow> [(key, ri_amount ri)])
          @ values_rows db rows"
    by (simp add: values_rows_def)
  with Cons show ?case
    by (cases "ingredient_key db ri") auto
qed

lemma annotate_sum_keys:
  "map fst (annotate_sum group_order rows) = group_order (remdups (map fst rows))"
  by (simp add: annotate_sum_def comp_def)

lemma annotate_sum_member:
  "((key, amount) \<in> set (annotate_sum group_order rows))
   = (key \<in> set (group_order (remdups (map fst rows)))
      \<and> amount = sum_list (map snd (filter (\<lambda>row. fst row = key) rows)))"
  by (auto simp: annotate_sum_def)

text \<open>
  The digits that \<open>str_nat\<close> writes are decimal digits, and they are the decimal
  representation of the number: reading them from the left gives the number back.
\<close>

lemma str_nat_decimal:
  "str_nat n \<noteq> []
   \<and> (\<forall>c \<in> set (str_nat n). 48 \<le> (of_char c :: nat) \<and> (of_char c :: nat) \<le> 57)
   \<and> foldl (\<lambda>acc c. 10 * acc + (of_char c - 48)) 0 (str_nat n) = n"
proof (induction n rule: str_nat.induct)
  case (1 n)
  show ?case
  proof (cases "n < 10")
    case True
    then have "str_nat n = [char_of (48 + n)]"
      by (simp add: str_nat.simps)
    moreover from True have "(48 + n) mod 256 = 48 + n" by simp
    ultimately show ?thesis using True by simp
  next
    case False
    then have s: "str_nat n = str_nat (n div 10) @ [char_of (48 + n mod 10)]"
      by (subst str_nat.simps) simp
    have d: "n mod 10 < 10" by simp
    then have m: "(48 + n mod 10) mod 256 = 48 + n mod 10" by simp
    from d have r: "n mod 10 \<le> 9" by simp
    from 1 [OF False] m r show ?thesis
      unfolding s by simp
  qed
qed

lemma str_int_decimal:
  "(\<forall>n. 0 \<le> n \<longrightarrow>
        str_int n \<noteq> []
      \<and> (\<forall>c \<in> set (str_int n). 48 \<le> (of_char c :: nat) \<and> (of_char c :: nat) \<le> 57)
      \<and> int (foldl (\<lambda>acc c. 10 * acc + (of_char c - 48)) 0 (str_int n)) = n)
   \<and> (\<forall>n. n < 0 \<longrightarrow> str_int n = CHR ''-'' # str_int (- n))"
proof (intro conjI allI impI)
  fix n :: int
  assume n: "0 \<le> n"
  then have s: "str_int n = str_nat (nat n)" by (simp add: str_int_def)
  from str_nat_decimal [of "nat n"] show "str_int n \<noteq> []" unfolding s by simp
  from str_nat_decimal [of "nat n"]
  show "\<forall>c \<in> set (str_int n). 48 \<le> (of_char c :: nat) \<and> (of_char c :: nat) \<le> 57"
    unfolding s by simp
  from str_nat_decimal [of "nat n"] n
  show "int (foldl (\<lambda>acc c. 10 * acc + (of_char c - 48)) 0 (str_int n)) = n"
    unfolding s by simp
next
  fix n :: int
  assume "n < 0"
  then show "str_int n = CHR ''-'' # str_int (- n)" by (simp add: str_int_def)
qed

text \<open>
  C1. For an authenticated user whose shopping cart holds each recipe at most once, and
  whatever order the database gives to the groups, the content of the response of
  \<open>download_shopping_cart\<close> is the title followed by one line
  \<^verbatim>\<open>\n{name} - {amount}, {unit}\<close> for each row of a list \<open>rows\<close> in which
  \<^item> each pair (ingredient name, measurement unit) occurs at most once;
  \<^item> a pair occurs exactly when a \<^verbatim>\<open>RecipeIngredient\<close> row of a recipe of the user's cart
    points to an ingredient with that name and that unit;
  \<^item> the amount of the pair is the sum of the amounts of all \<^verbatim>\<open>RecipeIngredient\<close> rows
    whose recipe is in the user's cart and whose ingredient has that name and that unit.
  The amount is written in decimal digits, with a minus sign for a negative number.
\<close>

theorem shopping_list_sums_amounts:
  assumes "request_user request = Some u" and "distinct (carts db)"
    and "\<And>keys. distinct keys
           \<Longrightarrow> distinct (group_order keys) \<and> set (group_order keys) = set keys"
  shows "\<exists>rows.
           download_shopping_cart group_order db request
             = Inr (shopping_list_title
                    @ concat (map (\<lambda>row. [CHR 0x0A] @ fst (fst row) @ '' - ''
                                          @ str_int (snd row) @ '', '' @ snd (fst row))
                                rows))
         \<and> distinct (map fst rows)
         \<and> (\<forall>name unit.
               (name, unit) \<in> set (map fst rows)
               \<longleftrightarrow> (\<exists>ri \<in> set (recipe_ingredients db).
                      (u, ri_recipe ri) \<in> set (carts db)
                    \<and> (\<exists>i. find (\<lambda>i. ingredient_id i = ri_ingredient ri) (ingredients db)
                               = Some i
                           \<and> ingredient_name i = name
                           \<and> ingredient_measurement_unit i = unit)))
         \<and> (\<forall>name unit amount.
               ((name, unit), amount) \<in> set rows
               \<longrightarrow> amount
                   = sum_list (map ri_amount
                       (filter (\<lambda>ri. (u, ri_recipe ri) \<in> set (carts db)
                                  \<and> (\<exists>i. find (\<lambda>i. ingredient_id i = ri_ingredient ri)
                                              (ingredients db) = Some i
                                         \<and> ingredient_name i = name
                                         \<and> ingredient_measurement_unit i = unit))
                          (recipe_ingredients db))))
         \<and> (\<forall>n. 0 \<le> n \<longrightarrow>
                 str_int n \<noteq> []
               \<and> (\<forall>c \<in> set (str_int n). 48 \<le> (of_char c :: nat) \<and> (of_char c :: nat) \<le> 57)
               \<and> int (foldl (\<lambda>acc c. 10 * acc + (of_char c - 48)) 0 (str_int n)) = n)
         \<and> (\<forall>n. n < 0 \<longrightarrow> str_int n = CHR ''-'' # str_int (- n))"
proof -
  let ?cart = "filter (\<lambda>ri. (u, ri_recipe ri) \<in> set (carts db)) (recipe_ingredients db)"
  let ?rows = "shopping_cart_ingredients group_order db request"
  have q: "?rows = annotate_sum group_order (values_rows db ?cart)"
    by (simp add: shopping_cart_ingredients_def cart_rows_filter [OF assms(2,1)])
  have line: "shopping_list_line
              = (\<lambda>row. [CHR 0x0A] @ fst (fst row) @ '' - '' @ str_int (snd row) @ '', ''
                         @ snd (fst row))"
    by (rule ext) (simp add: shopping_list_line_def)
  have 1: "download_shopping_cart group_order db request
             = Inr (shopping_list_title
                    @ concat (map (\<lambda>row. [CHR 0x0A] @ fst (fst row) @ '' - ''
                                          @ str_int (snd row) @ '', '' @ snd (fst row))
                                ?rows))"
    using assms(1)
    by (simp add: download_shopping_cart_def is_authenticated_def shopping_list_def line)
  from assms(3) [of "remdups (map fst (values_rows db ?cart))"]
  have o: "distinct (group_order (remdups (map fst (values_rows db ?cart))))"
    "set (group_order (remdups (map fst (values_rows db ?cart))))
     = set (map fst (values_rows db ?cart))"
    by simp_all
  have 2: "distinct (map fst ?rows)"
    unfolding q annotate_sum_keys by (rule o(1))
  have keys: "set (map fst ?rows)
              = {key. \<exists>ri \<in> set ?cart. ingredient_key db ri = Some key}"
    unfolding q annotate_sum_keys o(2) by (rule values_rows_keys)
  have 3: "(name, unit) \<in> set (map fst ?rows)
           \<longleftrightarrow> (\<exists>ri \<in> set (recipe_ingredients db).
                  (u, ri_recipe ri) \<in> set (carts db)
                \<and> (\<exists>i. find (\<lambda>i. ingredient_id i = ri_ingredient ri) (ingredients db)
                           = Some i
                       \<and> ingredient_name i = name
                       \<and> ingredient_measurement_unit i = unit))"
    for name unit
    unfolding keys ingredient_key_iff [symmetric] by auto
  have 4: "amount = sum_list (map ri_amount
                       (filter (\<lambda>ri. (u, ri_recipe ri) \<in> set (carts db)
                                  \<and> (\<exists>i. find (\<lambda>i. ingredient_id i = ri_ingredient ri)
                                              (ingredients db) = Some i
                                         \<and> ingredient_name i = name
                                         \<and> ingredient_measurement_unit i = unit))
                          (recipe_ingredients db)))"
    if "((name, unit), amount) \<in> set ?rows" for name unit amount
  proof -
    from that have "amount
        = sum_list (map snd (filter (\<lambda>row. fst row = (name, unit)) (values_rows db ?cart)))"
      unfolding q annotate_sum_member by simp
    also have "\<dots> = sum_list (map ri_amount
                       (filter (\<lambda>ri. ingredient_key db ri = Some (name, unit)) ?cart))"
      by (rule values_rows_sum)
    also have "filter (\<lambda>ri. ingredient_key db ri = Some (name, unit)) ?cart
               = filter (\<lambda>ri. (u, ri_recipe ri) \<in> set (carts db)
                              \<and> ingredient_key db ri = Some (name, unit))
                   (recipe_ingredients db)"
      by (simp add: conj_commute)
    finally show ?thesis unfolding ingredient_key_iff .
  qed
  from 1 2 3 4 str_int_decimal show ?thesis by blast
qed

theorem shopping_list_sums_amounts_witness:
  "download_shopping_cart (\<lambda>keys. keys) example_db (example_request (Some 1))
     = Inr (shopping_list_title @ [CHR 0x0A] @ ''milk - 200, ml''
            @ [CHR 0x0A] @ ''salt - 12, g'')
   \<and> (\<exists>rows. download_shopping_cart (\<lambda>keys. keys) example_db (example_request (Some 1))
             = Inr (shopping_list_title
                    @ concat (map (\<lambda>row. [CHR 0x0A] @ fst (fst row) @ '' - ''
                                          @ str_int (snd row) @ '', '' @ snd (fst row))
                                rows))
           \<and> distinct (map fst rows))"
proof -
  have r: "request_user (example_request (Some 1)) = Some 1"
    by (simp add: example_request_def)
  have d: "distinct (carts example_db)"
    by (simp add: example_db_def)
  have o: "distinct ((\<lambda>keys. keys) keys) \<and> set ((\<lambda>keys. keys) keys) = set keys"
    if "distinct keys" for keys :: "(string \<times> string) list"
    using that by simp
  have q: "shopping_cart_ingredients (\<lambda>keys. keys) example_db (example_request (Some 1))
     = [((''milk'', ''ml''), 200), ((''salt'', ''g''), 12)]"
    by (simp add: shopping_cart_ingredients_def annotate_sum_def values_rows_def
        cart_rows_def ingredient_key_def example_db_def example_request_def)
  have s: "str_int 200 = ''200''" "str_int 12 = ''12''"
    by code_simp+
  have e: "download_shopping_cart (\<lambda>keys. keys) example_db (example_request (Some 1))
     = Inr (shopping_list_title @ [CHR 0x0A] @ ''milk - 200, ml''
            @ [CHR 0x0A] @ ''salt - 12, g'')"
    by (simp add: download_shopping_cart_def shopping_list_def q shopping_list_line_def s
        is_authenticated_def r)
  from shopping_list_sums_amounts [OF r d o]
  have "\<exists>rows. download_shopping_cart (\<lambda>keys. keys) example_db (example_request (Some 1))
             = Inr (shopping_list_title
                    @ concat (map (\<lambda>row. [CHR 0x0A] @ fst (fst row) @ '' - ''
                                          @ str_int (snd row) @ '', '' @ snd (fst row))
                                rows))
           \<and> distinct (map fst rows)"
    by blast
  with e show ?thesis by blast
qed














end
